theory Spec2Isabelle
  imports Complex_Main
begin

section \<open>Token-level encoder-decoder module\<close>

text \<open>
  A shallow embedding of
  \<^verbatim>\<open>nemo/collections/nlp/modules/common/megatron/token_level_encoder_decoder.py\<close>:
  the class \<^verbatim>\<open>MegatronTokenLevelEncoderDecoderModule\<close> with its constructor,
  \<^verbatim>\<open>set_input_tensor\<close>, \<^verbatim>\<open>forward\<close>, \<^verbatim>\<open>state_dict_for_save_checkpoint\<close> and
  \<^verbatim>\<open>load_state_dict\<close>.

  The module does no arithmetic of its own: it builds sub-objects, routes tensors between
  them, transposes and casts. The sub-objects (embedding tables, relative position
  embeddings, encoder, decoder, their coordinator, the output head, the cross-entropy)
  live in other files; what they compute is a parameter of the model (the record
  \<open>collab\<close> below), and every call to one of them is logged in a trace.
\<close>

subsection \<open>Python values and errors\<close>

text \<open>
  Every exception the module can raise is a value. The payload of \<open>AttributeError\<close> is the
  attribute that is missing, the payload of \<open>Exception'\<close> and \<open>ValueError\<close> the message.
\<close>

datatype error =
    AssertionError
  | Exception' string
  | ValueError string
  | AttributeError string
  | ZeroDivisionError
  | IndexError
  | TypeError
  | KeyError string
  | CollaboratorError string

datatype dtype = Half | BFloat16 | Float32 | Int64

text \<open>
  A tensor is its shape, its dtype and its elements, read by index (one index per
  dimension). The elements are abstract contents: the module never computes with them.
\<close>

record tensor =
  shape :: "nat list"
  dtype :: dtype
  elems :: "nat list \<Rightarrow> real"

text \<open>
  The values \<^verbatim>\<open>set_input_tensor\<close> receives and the coordinator returns: \<^verbatim>\<open>None\<close>, a
  tensor, a tuple or a list.
\<close>

datatype pyval =
    PyNone
  | PyTensor tensor
  | PyTuple "pyval list"
  | PyList "pyval list"

subsection \<open>Sub-objects\<close>

text \<open>
  An encoder or decoder stack, as far as this module sees it: the tensor handed to it by
  its own \<^verbatim>\<open>set_input_tensor\<close>, and its weights (opaque).
\<close>

record network =
  net_weights :: tensor
  input_tensor :: pyval

text \<open>
  Modelled from the spec: the stack's own \<^verbatim>\<open>set_input_tensor\<close> is not in this file; the
  module "assigns it as the encoder's received input" (section 4.2), and the decoder's
  likewise.
\<close>

definition net_set_input_tensor :: "network \<Rightarrow> pyval \<Rightarrow> network" where
  "net_set_input_tensor n v = n\<lparr>input_tensor := v\<rparr>"

text \<open>
  The coordinator \<^verbatim>\<open>MegatronTransformerEncoderDecoderModule\<close>: the encoder and the
  decoder (\<^verbatim>\<open>None\<close> when the stage does not own one) and the attribute
  \<^verbatim>\<open>encoder_hidden_state\<close>. The attribute exists only once a value has been stored in
  it: \<open>None\<close> is "the attribute does not exist", and reading it then raises
  \<^verbatim>\<open>AttributeError\<close>.
\<close>

record coordinator =
  encoder :: "network option"
  decoder :: "network option"
  hidden_steps :: int
  encoder_hidden_state :: "pyval option"

text \<open>
  Modelled from the spec: the coordinator's constructor is not in this file; it "composes
  encoder and decoder into the coordinator object" (section 4.1, step 6). An encoder
  hidden state is stored only by \<^verbatim>\<open>set_input_tensor\<close> on a decoder-only stage (section
  4.2), so a new coordinator has none; and as no call should "ever silently produce an
  empty result" (section 4.3), the attribute \<^verbatim>\<open>encoder_hidden_state\<close> does not exist on
  a new coordinator: reading it raises instead of returning \<^verbatim>\<open>None\<close>.
\<close>

definition new_coordinator :: "network option \<Rightarrow> network option \<Rightarrow> int \<Rightarrow> coordinator" where
  "new_coordinator enc dec hs =
     \<lparr>encoder = enc, decoder = dec, hidden_steps = hs, encoder_hidden_state = None\<rparr>"

text \<open>
  An embedding table \<^verbatim>\<open>Embedding\<close>: the word embedding matrix and, when the table has
  them, the position and token-type matrices.
\<close>

record embedding =
  word_embeddings_weight :: tensor
  position_embeddings_weight :: "tensor option"
  tokentype_embeddings_weight :: "tensor option"

definition fill_zero :: "tensor \<Rightarrow> tensor" where
  "fill_zero t = t\<lparr>elems := (\<lambda>_. 0)\<rparr>"

text \<open>
  Modelled from the spec: \<^verbatim>\<open>Embedding.zero_parameters\<close> is not in this file; it
  "initializes its weights to zero" (section 4.1, step 4): every matrix of the table is
  filled with zeros.
\<close>

definition zero_parameters :: "embedding \<Rightarrow> embedding" where
  "zero_parameters e =
     \<lparr>word_embeddings_weight = fill_zero (word_embeddings_weight e),
      position_embeddings_weight = map_option fill_zero (position_embeddings_weight e),
      tokentype_embeddings_weight = map_option fill_zero (tokentype_embeddings_weight e)\<rparr>"

text \<open>A relative position embedding \<^verbatim>\<open>T5RelativePositionEmbedding\<close>.\<close>

record rpe =
  rpe_weight :: tensor
  bidirectional :: bool

text \<open>
  \<^verbatim>\<open>MegatronTokenLevelHead\<close> (lines 47-74): a bias of \<^verbatim>\<open>mpu_vocab_size\<close> zeros and the
  flag \<^verbatim>\<open>parallel_output\<close>. The other head is a \<^verbatim>\<open>ColumnParallelLinear\<close>, of another
  file: its weights are opaque.
\<close>

record token_level_head =
  bias :: tensor
  head_parallel_output :: bool

definition MegatronTokenLevelHead :: "nat \<Rightarrow> bool \<Rightarrow> token_level_head" where
  "MegatronTokenLevelHead mpu_vocab_size po =
     \<lparr>bias = \<lparr>shape = [mpu_vocab_size], dtype = Float32, elems = (\<lambda>_. 0)\<rparr>,
      head_parallel_output = po\<rparr>"

datatype head =
    TokenLevelHead token_level_head
  | ColumnParallelLinear tensor

subsection \<open>The module and the store\<close>

text \<open>
  The constructor's arguments that the module itself reads. The remaining ones (dropout
  rates, fusion toggles, layer counts and so on) are only handed on to the constructors of
  the sub-objects, which are parameters here.
\<close>

record config =
  cfg_vocab_size :: int
  cfg_hidden_size :: int
  cfg_max_position_embeddings :: int
  cfg_num_attention_heads :: int
  cfg_kv_channels :: "int option"
  cfg_num_tokentypes :: int
  cfg_parallel_output :: bool
  cfg_pre_process :: bool
  cfg_post_process :: bool
  cfg_fp16_cross_entropy :: bool
  cfg_position_embedding_type :: string
  cfg_relative_position_bias_self_attention_only :: bool
  cfg_hidden_steps :: int
  cfg_add_encoder :: bool
  cfg_add_decoder :: bool
  cfg_share_token_embeddings :: bool
  cfg_share_decoder_tokens_head_embeddings :: bool

text \<open>
  The module's attributes. An attribute that the constructor sets only on some stages is
  an option: \<open>None\<close> is "the attribute does not exist" (reading it raises
  \<^verbatim>\<open>AttributeError\<close>). Embedding tables are objects of the store, and the module holds
  their addresses: two attributes may name the same table. \<open>word_embeddings\<close> is the
  attribute that \<^verbatim>\<open>initialize_word_embeddings\<close> (of the base class) may add.
\<close>

record token_level_module =
  parallel_output :: bool
  pre_process :: bool
  post_process :: bool
  fp16_cross_entropy :: bool
  add_encoder :: bool
  add_decoder :: bool
  position_embedding_type :: string
  share_token_embeddings :: bool
  share_decoder_tokens_head_embeddings :: bool
  relative_position_bias_self_attention_only :: bool
  encoder_embedding :: "nat option"
  encoder_relative_position_embedding :: "rpe option"
  decoder_embedding :: "nat option"
  decoder_relative_position_embedding :: "rpe option"
  decoder_cross_attention_relative_position_embedding :: "rpe option"
  enc_dec_model :: coordinator
  word_embeddings :: "tensor option"
  tokens_head :: "head option"

record store =
  objs :: "nat \<Rightarrow> embedding"
  next_addr :: nat

definition alloc :: "embedding \<Rightarrow> store \<Rightarrow> nat \<times> store" where
  "alloc e st =
     (next_addr st, st\<lparr>objs := (objs st)(next_addr st := e), next_addr := Suc (next_addr st)\<rparr>)"

definition update_obj :: "nat \<Rightarrow> (embedding \<Rightarrow> embedding) \<Rightarrow> store \<Rightarrow> store" where
  "update_obj a f st = st\<lparr>objs := (objs st)(a := f (objs st a))\<rparr>"

subsection \<open>Cross-stage tensor hand-off\<close>

text \<open>
  \<^verbatim>\<open>set_input_tensor\<close> (lines 332-358). A failed \<^verbatim>\<open>assert\<close> is \<open>AssertionError\<close>. The call
  \<^verbatim>\<open>self.enc_dec_model.encoder.set_input_tensor(...)\<close> on a coordinator whose encoder is
  \<^verbatim>\<open>None\<close> raises \<^verbatim>\<open>AttributeError\<close>.
\<close>

definition encoder_set_input_tensor :: "token_level_module \<Rightarrow> pyval \<Rightarrow> error + token_level_module" where
  "encoder_set_input_tensor m v =
     (case encoder (enc_dec_model m) of
        None \<Rightarrow> Inl (AttributeError ''set_input_tensor'')
      | Some n \<Rightarrow>
          Inr (m\<lparr>enc_dec_model := (enc_dec_model m)\<lparr>encoder := Some (net_set_input_tensor n v)\<rparr>\<rparr>))"

definition decoder_set_input_tensor :: "token_level_module \<Rightarrow> pyval \<Rightarrow> error + token_level_module" where
  "decoder_set_input_tensor m v =
     (case decoder (enc_dec_model m) of
        None \<Rightarrow> Inl (AttributeError ''set_input_tensor'')
      | Some n \<Rightarrow>
          Inr (m\<lparr>enc_dec_model := (enc_dec_model m)\<lparr>decoder := Some (net_set_input_tensor n v)\<rparr>\<rparr>))"

definition set_encoder_hidden_state :: "token_level_module \<Rightarrow> pyval \<Rightarrow> token_level_module" where
  "set_encoder_hidden_state m v =
     m\<lparr>enc_dec_model := (enc_dec_model m)\<lparr>encoder_hidden_state := Some v\<rparr>\<rparr>"

definition set_input_tensor :: "token_level_module \<Rightarrow> pyval \<Rightarrow> error + token_level_module" where
  "set_input_tensor m arg =
     (let xs = (case arg of PyList ys \<Rightarrow> ys | _ \<Rightarrow> [arg]) in
      if add_encoder m \<and> add_decoder m then
        if length xs = 1 then encoder_set_input_tensor m (xs ! 0) else Inl AssertionError
      else if add_encoder m then
        if length xs = 1 then encoder_set_input_tensor m (xs ! 0) else Inl AssertionError
      else if add_decoder m then
        if length xs = 2 then
          (case decoder_set_input_tensor m (xs ! 0) of
             Inl e \<Rightarrow> Inl e
           | Inr m' \<Rightarrow> Inr (set_encoder_hidden_state m' (xs ! 1)))
        else if length xs = 1 then
          (case decoder_set_input_tensor m PyNone of
             Inl e \<Rightarrow> Inl e
           | Inr m' \<Rightarrow> Inr (set_encoder_hidden_state m' (xs ! 0)))
        else Inl (Exception' ''input_tensor must have either length 1 or 2'')
      else Inl (Exception' ''Stage must have at least either encoder or decoder''))"

subsection \<open>Collaborators\<close>

text \<open>
  What the forward pass hands to the coordinator (lines 435-449); \<^verbatim>\<open>enc_layer_past\<close>,
  \<^verbatim>\<open>dec_layer_past\<close> and the two \<^verbatim>\<open>get_key_value\<close> flags are constants there.
\<close>

record enc_dec_args =
  ed_enc_input :: "tensor option"
  ed_enc_attn_mask :: "tensor option"
  ed_dec_input :: "tensor option"
  ed_dec_attn_mask :: "tensor option"
  ed_enc_output :: "tensor option"
  ed_enc_output_attn_mask :: "tensor option"
  ed_enc_self_attention_relative_position_bias :: "tensor option"
  ed_dec_self_attention_relative_position_bias :: "tensor option"
  ed_dec_cross_attention_relative_position_bias :: "tensor option"

text \<open>
  The state of one sub-object in a checkpoint: named tensors, in order. What a sub-object
  writes there and how it reads it back is its own business.
\<close>

type_synonym state_section = "(string \<times> tensor) list"

text \<open>
  The functions and classes of other files that the module calls. Each may raise. The
  constructors of embedding tables take the address the new table gets, so that two tables
  need not start with the same (random) weights. \<open>initialize_word_embeddings\<close> returns the
  \<^verbatim>\<open>word_embeddings\<close> attribute it leaves on the module; it does not touch the embedding
  tables (their synchronisation is a later, separate step).
\<close>

record collab =
  Embedding :: "config \<Rightarrow> nat \<Rightarrow> error + embedding"
  T5RelativePositionEmbedding :: "config \<Rightarrow> bool \<Rightarrow> error + rpe"
  get_encoder_model :: "config \<Rightarrow> int \<Rightarrow> error + network"
  get_decoder_model :: "config \<Rightarrow> int \<Rightarrow> error + network"
  initialize_word_embeddings :: "token_level_module \<Rightarrow> store \<Rightarrow> error + tensor option"
  get_word_embeddings_weight :: "token_level_module \<Rightarrow> store \<Rightarrow> error + tensor"
  new_ColumnParallelLinear :: "config \<Rightarrow> error + tensor"
  build_position_ids :: "tensor option \<Rightarrow> error + tensor"
  embedding_forward ::
    "embedding \<Rightarrow> tensor option \<Rightarrow> tensor option \<Rightarrow> tensor option \<Rightarrow> error + tensor"
  rpe_forward :: "rpe \<Rightarrow> nat \<Rightarrow> nat \<Rightarrow> error + tensor"
  encode :: "coordinator \<Rightarrow> tensor option \<Rightarrow> tensor option \<Rightarrow> error + pyval"
  enc_dec_forward :: "coordinator \<Rightarrow> enc_dec_args \<Rightarrow> error + pyval"
  tensor_model_parallel_world_size :: nat
  parallel_lm_logits :: "pyval \<Rightarrow> tensor \<Rightarrow> bool \<Rightarrow> tensor \<Rightarrow> bool \<Rightarrow> error + tensor"
  column_parallel_linear_forward :: "tensor \<Rightarrow> pyval \<Rightarrow> error + tensor \<times> pyval"
  vocab_parallel_cross_entropy :: "tensor \<Rightarrow> tensor \<Rightarrow> error + tensor"
  embedding_state_dict :: "embedding \<Rightarrow> state_section"
  coordinator_state_dict :: "coordinator \<Rightarrow> state_section"
  head_state_dict :: "head \<Rightarrow> state_section"
  embedding_load_state_dict :: "embedding \<Rightarrow> state_section \<Rightarrow> bool \<Rightarrow> error + embedding"
  coordinator_load_state_dict :: "coordinator \<Rightarrow> state_section \<Rightarrow> bool \<Rightarrow> error + coordinator"
  head_load_state_dict :: "head \<Rightarrow> state_section \<Rightarrow> bool \<Rightarrow> error + head"

subsection \<open>Construction\<close>

definition bindE :: "error + 'a \<Rightarrow> ('a \<Rightarrow> error + 'b) \<Rightarrow> error + 'b" where
  "bindE r f = (case r of Inl e \<Rightarrow> Inl e | Inr x \<Rightarrow> f x)"

text \<open>Lines 147-152: the position embedding kind is one of two strings.\<close>

definition add_position_embedding :: "config \<Rightarrow> error + bool" where
  "add_position_embedding cfg =
     (if cfg_position_embedding_type cfg = ''learned_absolute'' then Inr True
      else if cfg_position_embedding_type cfg = ''relative'' then Inr False
      else Inl (ValueError ''Unknown position embeeding type. Options: [learned_absolute | relative]''))"

text \<open>
  Lines 155-159: \<^verbatim>\<open>kv_channels\<close>. Python's \<^verbatim>\<open>%\<close> raises on a zero divisor; on integers
  it is HOL's \<open>mod\<close>, and \<^verbatim>\<open>//\<close> is \<open>div\<close> (both round down).
\<close>

definition derive_kv_channels :: "config \<Rightarrow> error + int" where
  "derive_kv_channels cfg =
     (case cfg_kv_channels cfg of
        Some kv \<Rightarrow> Inr kv
      | None \<Rightarrow>
          if cfg_num_attention_heads cfg = 0 then Inl ZeroDivisionError
          else if cfg_hidden_size cfg mod cfg_num_attention_heads cfg = 0
          then Inr (cfg_hidden_size cfg div cfg_num_attention_heads cfg)
          else Inl AssertionError)"

text \<open>
  Lines 162-221: the encoder's embedding table, its relative position embedding and the
  encoder. The result is the three attributes (\<open>None\<close> for one that is not set) and the
  store.
\<close>

definition init_encoder ::
  "collab \<Rightarrow> config \<Rightarrow> int \<Rightarrow> store \<Rightarrow>
   error + (nat option \<times> rpe option \<times> network option \<times> store)" where
  "init_encoder c cfg kv st =
     (if cfg_add_encoder cfg then
        bindE
          (if cfg_pre_process cfg then
             bindE (Embedding c cfg (next_addr st)) (\<lambda>e.
             case alloc e st of (a, st') \<Rightarrow>
             if cfg_position_embedding_type cfg = ''relative'' then
               bindE (T5RelativePositionEmbedding c cfg True) (\<lambda>r. Inr (Some a, Some r, st'))
             else Inr (Some a, None, st'))
           else Inr (None, None, st))
          (\<lambda>(enc_emb, enc_rpe, st').
             bindE (get_encoder_model c cfg kv) (\<lambda>n. Inr (enc_emb, enc_rpe, Some n, st')))
      else Inr (None, None, None, st))"

text \<open>
  Lines 223-246: the decoder's embedding table. \<^verbatim>\<open>hasattr(self, 'encoder_embedding')\<close> is
  \<open>enc_emb = Some a\<close>. When the encoder's table exists and sharing is asked for, the decoder
  gets the same address; otherwise a new table is allocated, and zeroed in place when
  sharing is asked for.
\<close>

definition init_decoder_embedding ::
  "collab \<Rightarrow> config \<Rightarrow> nat option \<Rightarrow> store \<Rightarrow> error + (nat \<times> store)" where
  "init_decoder_embedding c cfg enc_emb st =
     (case (enc_emb, cfg_share_token_embeddings cfg) of
        (Some a, True) \<Rightarrow> Inr (a, st)
      | _ \<Rightarrow>
          bindE (Embedding c cfg (next_addr st)) (\<lambda>e.
          case alloc e st of (a, st') \<Rightarrow>
          if cfg_share_token_embeddings cfg then Inr (a, update_obj a zero_parameters st')
          else Inr (a, st')))"

text \<open>Lines 248-267: the decoder's relative position embeddings.\<close>

definition init_decoder_rpe :: "collab \<Rightarrow> config \<Rightarrow> error + (rpe option \<times> rpe option)" where
  "init_decoder_rpe c cfg =
     (if cfg_position_embedding_type cfg = ''relative'' then
        bindE (T5RelativePositionEmbedding c cfg False) (\<lambda>r.
        if \<not> cfg_relative_position_bias_self_attention_only cfg then
          bindE (T5RelativePositionEmbedding c cfg True) (\<lambda>x. Inr (Some r, Some x))
        else Inr (Some r, None))
      else Inr (None, None))"

text \<open>Lines 223-304: the decoder's part of the constructor.\<close>

definition init_decoder ::
  "collab \<Rightarrow> config \<Rightarrow> int \<Rightarrow> nat option \<Rightarrow> store \<Rightarrow>
   error + (nat option \<times> rpe option \<times> rpe option \<times> network option \<times> store)" where
  "init_decoder c cfg kv enc_emb st =
     (if cfg_add_decoder cfg then
        bindE
          (if cfg_pre_process cfg then
             bindE (init_decoder_embedding c cfg enc_emb st) (\<lambda>(a, st').
             bindE (init_decoder_rpe c cfg) (\<lambda>(r, x). Inr (Some a, r, x, st')))
           else Inr (None, None, None, st))
          (\<lambda>(dec_emb, dec_rpe, dec_cross_rpe, st').
             bindE (get_decoder_model c cfg kv) (\<lambda>n.
             Inr (dec_emb, dec_rpe, dec_cross_rpe, Some n, st')))
      else Inr (None, None, None, None, st))"

text \<open>
  Lines 317-330: the output head. \<^verbatim>\<open>self.word_embeddings_weight().size(0)\<close> is the first
  entry of the weight's shape; a tensor with no dimension has none.
\<close>

definition size_of :: "tensor \<Rightarrow> nat \<Rightarrow> error + nat" where
  "size_of t d = (if d < length (shape t) then Inr (shape t ! d) else Inl IndexError)"

definition init_tokens_head ::
  "collab \<Rightarrow> config \<Rightarrow> token_level_module \<Rightarrow> store \<Rightarrow> error + head option" where
  "init_tokens_head c cfg m st =
     (if cfg_add_decoder cfg \<and> cfg_post_process cfg then
        if cfg_share_decoder_tokens_head_embeddings cfg then
          bindE (get_word_embeddings_weight c m st) (\<lambda>w.
          bindE (size_of w 0) (\<lambda>n.
          Inr (Some (TokenLevelHead (MegatronTokenLevelHead n (cfg_parallel_output cfg))))))
        else
          bindE (new_ColumnParallelLinear c cfg) (\<lambda>w. Inr (Some (ColumnParallelLinear w)))
      else Inr None)"

text \<open>
  \<^verbatim>\<open>__init__\<close> (lines 83-330). The attributes are collected first and the module is put
  together where the source builds the coordinator (line 306); the two calls on
  \<^verbatim>\<open>self\<close> after that see the module as it is then.
\<close>

definition init :: "collab \<Rightarrow> config \<Rightarrow> store \<Rightarrow> error + (token_level_module \<times> store)" where
  "init c cfg st =
     bindE (add_position_embedding cfg) (\<lambda>_.
     bindE (derive_kv_channels cfg) (\<lambda>kv.
     bindE (init_encoder c cfg kv st) (\<lambda>(enc_emb, enc_rpe, enc, st1).
     bindE (init_decoder c cfg kv enc_emb st1) (\<lambda>(dec_emb, dec_rpe, dec_cross_rpe, dec, st2).
     let m0 =
       \<lparr>parallel_output = cfg_parallel_output cfg,
        pre_process = cfg_pre_process cfg,
        post_process = cfg_post_process cfg,
        fp16_cross_entropy = cfg_fp16_cross_entropy cfg,
        add_encoder = cfg_add_encoder cfg,
        add_decoder = cfg_add_decoder cfg,
        position_embedding_type = cfg_position_embedding_type cfg,
        share_token_embeddings = cfg_share_token_embeddings cfg,
        share_decoder_tokens_head_embeddings = cfg_share_decoder_tokens_head_embeddings cfg,
        relative_position_bias_self_attention_only =
          cfg_relative_position_bias_self_attention_only cfg,
        encoder_embedding = enc_emb,
        encoder_relative_position_embedding = enc_rpe,
        decoder_embedding = dec_emb,
        decoder_relative_position_embedding = dec_rpe,
        decoder_cross_attention_relative_position_embedding = dec_cross_rpe,
        enc_dec_model = new_coordinator enc dec (cfg_hidden_steps cfg),
        word_embeddings = None,
        tokens_head = None\<rparr>
     in
     bindE
       (if cfg_share_token_embeddings cfg then
          bindE (initialize_word_embeddings c m0 st2) (\<lambda>w. Inr (m0\<lparr>word_embeddings := w\<rparr>))
        else Inr m0)
       (\<lambda>m1.
     bindE (init_tokens_head c cfg m1 st2) (\<lambda>h.
     Inr (m1\<lparr>tokens_head := h\<rparr>, st2)))))))"

subsection \<open>Tensor operations\<close>

text \<open>
  \<^verbatim>\<open>t.transpose(0, 1)\<close>: the first two dimensions change places. A tensor with fewer than
  two dimensions has no dimension 1, and torch raises \<^verbatim>\<open>IndexError\<close>.
  \<^verbatim>\<open>.contiguous()\<close> changes the memory layout only and is left out.
\<close>

fun swap01 :: "nat list \<Rightarrow> nat list" where
  "swap01 (i # j # rest) = j # i # rest"
| "swap01 xs = xs"

definition transpose01 :: "tensor \<Rightarrow> error + tensor" where
  "transpose01 t =
     (if length (shape t) < 2 then Inl IndexError
      else Inr \<lparr>shape = swap01 (shape t), dtype = dtype t,
                elems = (\<lambda>idx. elems t (swap01 idx))\<rparr>)"

text \<open>
  \<^verbatim>\<open>t.float()\<close>: the dtype becomes float32. Logits are half, bfloat16 or float32, which
  float32 holds exactly, so the elements stay.
\<close>

definition to_float :: "tensor \<Rightarrow> tensor" where
  "to_float t = t\<lparr>dtype := Float32\<rparr>"

text \<open>\<^verbatim>\<open>x.size(1)\<close> on an argument that may be \<^verbatim>\<open>None\<close>.\<close>

definition size1 :: "tensor option \<Rightarrow> error + nat" where
  "size1 x = (case x of None \<Rightarrow> Inl (AttributeError ''size'') | Some t \<Rightarrow> size_of t 1)"

text \<open>
  \<^verbatim>\<open>a, b = output\<close>. A tuple or list of two values unpacks; so does a tensor whose first
  dimension is 2 (into its two slices). \<^verbatim>\<open>None\<close> and a tensor with no dimension are not
  iterable (\<^verbatim>\<open>TypeError\<close>); any other length is a \<^verbatim>\<open>ValueError\<close>.
\<close>

definition select0 :: "tensor \<Rightarrow> nat \<Rightarrow> tensor" where
  "select0 t i = \<lparr>shape = tl (shape t), dtype = dtype t, elems = (\<lambda>idx. elems t (i # idx))\<rparr>"

definition unpack2 :: "pyval \<Rightarrow> error + pyval \<times> pyval" where
  "unpack2 v =
     (case v of
        PyNone \<Rightarrow> Inl TypeError
      | PyTensor t \<Rightarrow>
          (case shape t of
             [] \<Rightarrow> Inl TypeError
           | n # _ \<Rightarrow>
               if n = 2 then Inr (PyTensor (select0 t 0), PyTensor (select0 t 1))
               else Inl (ValueError ''unpack''))
      | PyTuple xs \<Rightarrow>
          (case xs of [a, b] \<Rightarrow> Inr (a, b) | _ \<Rightarrow> Inl (ValueError ''unpack''))
      | PyList xs \<Rightarrow>
          (case xs of [a, b] \<Rightarrow> Inr (a, b) | _ \<Rightarrow> Inl (ValueError ''unpack'')))"

subsection \<open>Forward pass\<close>

text \<open>
  Every call of a sub-object made by \<^verbatim>\<open>forward\<close> is an event, named after the place in
  the source that makes it; a call of an embedding table also records the table's address,
  and the call of the cross-entropy the dtype of the logits it is given.
\<close>

datatype event =
    Call_build_position_ids_enc
  | Call_encoder_embedding nat
  | Call_encoder_relative_position_embedding
  | Call_encode
  | Call_build_position_ids_dec
  | Call_decoder_embedding nat
  | Call_decoder_relative_position_embedding
  | Call_decoder_cross_attention_relative_position_embedding
  | Call_enc_dec_model
  | Call_word_embeddings_weight
  | Call_tokens_head
  | Call_vocab_parallel_cross_entropy dtype

text \<open>
  A computation that logs events and returns a value or raises. The trace is kept when an
  error is raised: it says what ran before.
\<close>

type_synonym 'a res = "event list \<times> (error + 'a)"

definition ret :: "'a \<Rightarrow> 'a res" where
  "ret x = ([], Inr x)"

definition raise :: "error \<Rightarrow> 'a res" where
  "raise e = ([], Inl e)"

definition lift :: "error + 'a \<Rightarrow> 'a res" where
  "lift r = ([], r)"

definition call :: "event \<Rightarrow> error + 'a \<Rightarrow> 'a res" where
  "call ev r = ([ev], r)"

definition andthen :: "'a res \<Rightarrow> ('a \<Rightarrow> 'b res) \<Rightarrow> 'b res" where
  "andthen r f =
     (case r of
        (tr, Inl e) \<Rightarrow> (tr, Inl e)
      | (tr, Inr x) \<Rightarrow> (case f x of (tr', y) \<Rightarrow> (tr @ tr', y)))"

definition getattr :: "string \<Rightarrow> 'a option \<Rightarrow> 'a res" where
  "getattr name x = (case x of None \<Rightarrow> raise (AttributeError name) | Some v \<Rightarrow> ret v)"

record fwd_args =
  enc_input_ids :: "tensor option"
  enc_attn_mask :: "tensor option"
  dec_input_ids :: "tensor option"
  dec_attn_mask :: "tensor option"
  token_type_ids :: "tensor option"
  labels :: "tensor option"
  enc_output :: "tensor option"
  enc_output_attn_mask :: "tensor option"
  enc_input :: "tensor option"
  output_enc_hidden_only :: bool

text \<open>
  Lines 384-398: the encoder's input and its relative position bias. In a call, Python
  looks up the callee before it evaluates the arguments.
\<close>

definition resolve_enc_input ::
  "collab \<Rightarrow> token_level_module \<Rightarrow> store \<Rightarrow> fwd_args \<Rightarrow> (tensor option \<times> tensor option) res" where
  "resolve_enc_input c m st a =
     (if enc_input a = None \<and> enc_input_ids a \<noteq> None then
        if pre_process m \<and> add_encoder m then
          andthen
            (if position_embedding_type m \<noteq> ''relative'' then
               andthen (call Call_build_position_ids_enc (build_position_ids c (enc_input_ids a)))
                 (\<lambda>p. ret (Some p))
             else ret None)
            (\<lambda>enc_position_ids.
          andthen (getattr ''encoder_embedding'' (encoder_embedding m)) (\<lambda>addr.
          andthen
            (call (Call_encoder_embedding addr)
               (embedding_forward c (objs st addr) (enc_input_ids a) enc_position_ids
                  (token_type_ids a)))
            (\<lambda>e.
          if position_embedding_type m = ''relative'' then
            andthen
              (getattr ''encoder_relative_position_embedding''
                 (encoder_relative_position_embedding m))
              (\<lambda>r.
            andthen (lift (size1 (enc_input_ids a))) (\<lambda>q.
            andthen (lift (size1 (enc_input_ids a))) (\<lambda>k.
            andthen (call Call_encoder_relative_position_embedding (rpe_forward c r q k)) (\<lambda>b.
            ret (Some e, Some b)))))
          else ret (Some e, None))))
        else ret (None, None)
      else ret (enc_input a, None))"

text \<open>Lines 413-429: the decoder's input and its relative position biases.\<close>

definition resolve_dec_input ::
  "collab \<Rightarrow> token_level_module \<Rightarrow> store \<Rightarrow> fwd_args \<Rightarrow>
   (tensor option \<times> tensor option \<times> tensor option) res" where
  "resolve_dec_input c m st a =
     (if pre_process m \<and> add_decoder m then
        andthen (call Call_build_position_ids_dec (build_position_ids c (dec_input_ids a)))
          (\<lambda>dec_position_ids.
        andthen (getattr ''decoder_embedding'' (decoder_embedding m)) (\<lambda>addr.
        andthen
          (call (Call_decoder_embedding addr)
             (embedding_forward c (objs st addr) (dec_input_ids a) (Some dec_position_ids)
                (token_type_ids a)))
          (\<lambda>d.
        if position_embedding_type m = ''relative'' then
          andthen
            (getattr ''decoder_relative_position_embedding''
               (decoder_relative_position_embedding m))
            (\<lambda>r.
          andthen (lift (size1 (dec_input_ids a))) (\<lambda>q.
          andthen (lift (size1 (dec_input_ids a))) (\<lambda>k.
          andthen (call Call_decoder_relative_position_embedding (rpe_forward c r q k)) (\<lambda>sb.
          if \<not> relative_position_bias_self_attention_only m then
            andthen
              (getattr ''decoder_cross_attention_relative_position_embedding''
                 (decoder_cross_attention_relative_position_embedding m))
              (\<lambda>x.
            andthen (lift (size1 (dec_input_ids a))) (\<lambda>q'.
            andthen (lift (size1 (enc_input_ids a))) (\<lambda>k'.
            andthen
              (call Call_decoder_cross_attention_relative_position_embedding
                 (rpe_forward c x q' k'))
              (\<lambda>cb.
            ret (Some d, Some sb, Some cb)))))
          else ret (Some d, Some sb, None)))))
        else ret (Some d, None, None))))
      else ret (None, None, None))"

text \<open>
  Lines 400-408: the encode-only return. \<open>ei\<close> is the encoder input that lines 384-398
  left. Line 407 reads the coordinator's attribute \<^verbatim>\<open>encoder_hidden_state\<close>.
\<close>

definition encode_only ::
  "collab \<Rightarrow> token_level_module \<Rightarrow> fwd_args \<Rightarrow> tensor option \<Rightarrow> pyval res" where
  "encode_only c m a ei =
     (if enc_output a = None \<and> encoder (enc_dec_model m) \<noteq> None then
        call Call_encode (encode c (enc_dec_model m) ei (enc_attn_mask a))
      else getattr ''encoder_hidden_state'' (encoder_hidden_state (enc_dec_model m)))"

text \<open>
  Lines 410-449: the default of \<^verbatim>\<open>enc_output_attn_mask\<close>, the decoder's input, the
  transposition of a supplied \<^verbatim>\<open>enc_output\<close>, and the call of the coordinator.
\<close>

definition run_enc_dec ::
  "collab \<Rightarrow> token_level_module \<Rightarrow> store \<Rightarrow> fwd_args \<Rightarrow> tensor option \<Rightarrow> tensor option \<Rightarrow>
   pyval res" where
  "run_enc_dec c m st a ei eb =
     (let am = (if enc_output_attn_mask a = None then enc_attn_mask a
                else enc_output_attn_mask a) in
      andthen (resolve_dec_input c m st a) (\<lambda>(dec_input, sb, cb).
      andthen
        (case enc_output a of
           None \<Rightarrow> ret None
         | Some t \<Rightarrow> andthen (lift (transpose01 t)) (\<lambda>t'. ret (Some t')))
        (\<lambda>eo.
      call Call_enc_dec_model
        (enc_dec_forward c (enc_dec_model m)
           \<lparr>ed_enc_input = ei,
            ed_enc_attn_mask = enc_attn_mask a,
            ed_dec_input = dec_input,
            ed_dec_attn_mask = dec_attn_mask a,
            ed_enc_output = eo,
            ed_enc_output_attn_mask = am,
            ed_enc_self_attention_relative_position_bias = eb,
            ed_dec_self_attention_relative_position_bias = sb,
            ed_dec_cross_attention_relative_position_bias = cb\<rparr>))))"

text \<open>\<^verbatim>\<open>MegatronTokenLevelHead.forward\<close> (lines 64-74).\<close>

definition head_forward :: "collab \<Rightarrow> token_level_head \<Rightarrow> pyval \<Rightarrow> tensor \<Rightarrow> error + tensor" where
  "head_forward c h hidden_states w =
     (let async_tensor_model_parallel_allreduce = (tensor_model_parallel_world_size c > 1) in
      parallel_lm_logits c hidden_states w (head_parallel_output h) (bias h)
        async_tensor_model_parallel_allreduce)"

text \<open>
  Lines 452-457: the coordinator's output is unpacked and the decoder's part projected to
  the vocabulary. A head called with the wrong number of arguments is a \<^verbatim>\<open>TypeError\<close>.
\<close>

definition token_logits ::
  "collab \<Rightarrow> token_level_module \<Rightarrow> store \<Rightarrow> pyval \<Rightarrow> tensor res" where
  "token_logits c m st output =
     andthen (lift (unpack2 output)) (\<lambda>(dec_output, _).
     andthen (getattr ''tokens_head'' (tokens_head m)) (\<lambda>h.
     if share_decoder_tokens_head_embeddings m then
       andthen (call Call_word_embeddings_weight (get_word_embeddings_weight c m st)) (\<lambda>w.
       case h of
         TokenLevelHead th \<Rightarrow> call Call_tokens_head (head_forward c th dec_output w)
       | ColumnParallelLinear _ \<Rightarrow> raise TypeError)
     else
       (case h of
          TokenLevelHead _ \<Rightarrow> raise TypeError
        | ColumnParallelLinear w \<Rightarrow>
            andthen (call Call_tokens_head (column_parallel_linear_forward c w dec_output))
              (\<lambda>(out, _). ret out))))"

text \<open>
  Lines 460-473: the loss. The labels are transposed first; with \<^verbatim>\<open>fp16_cross_entropy\<close>
  the logits must be half (an \<^verbatim>\<open>assert\<close>), without it they are cast to float32. The
  loss comes back transposed and is returned as it is.
\<close>

definition tokens_loss ::
  "collab \<Rightarrow> token_level_module \<Rightarrow> tensor \<Rightarrow> tensor \<Rightarrow> pyval res" where
  "tokens_loss c m logits lab =
     andthen (lift (transpose01 lab)) (\<lambda>lab'.
     andthen
       (if fp16_cross_entropy m then
          if dtype logits = Half then
            call (Call_vocab_parallel_cross_entropy (dtype logits))
              (vocab_parallel_cross_entropy c logits lab')
          else raise AssertionError
        else
          call (Call_vocab_parallel_cross_entropy (dtype (to_float logits)))
            (vocab_parallel_cross_entropy c (to_float logits) lab'))
       (\<lambda>loss.
     andthen (lift (transpose01 loss)) (\<lambda>loss'. ret (PyTensor loss'))))"

text \<open>Lines 451-484: what \<^verbatim>\<open>forward\<close> returns from the coordinator's output.\<close>

definition finish ::
  "collab \<Rightarrow> token_level_module \<Rightarrow> store \<Rightarrow> fwd_args \<Rightarrow> pyval \<Rightarrow> pyval res" where
  "finish c m st a output =
     (if post_process m \<and> add_decoder m then
        andthen (token_logits c m st output) (\<lambda>logits.
        case labels a of
          Some lab \<Rightarrow> tokens_loss c m logits lab
        | None \<Rightarrow> andthen (lift (transpose01 logits)) (\<lambda>t. ret (PyTensor t)))
      else if add_decoder m \<and> \<not> add_encoder m then
        andthen (lift (unpack2 output)) (\<lambda>(decoder_output, _). ret decoder_output)
      else ret output)"

text \<open>\<^verbatim>\<open>forward\<close> (lines 360-484).\<close>

definition forward ::
  "collab \<Rightarrow> token_level_module \<Rightarrow> store \<Rightarrow> fwd_args \<Rightarrow> pyval res" where
  "forward c m st a =
     andthen (resolve_enc_input c m st a) (\<lambda>(ei, eb).
     if output_enc_hidden_only a then encode_only c m a ei
     else andthen (run_enc_dec c m st a ei eb) (finish c m st a))"

text \<open>The events that are decoder work.\<close>

fun is_decoder_event :: "event \<Rightarrow> bool" where
  "is_decoder_event Call_build_position_ids_dec = True"
| "is_decoder_event (Call_decoder_embedding _) = True"
| "is_decoder_event Call_decoder_relative_position_embedding = True"
| "is_decoder_event Call_decoder_cross_attention_relative_position_embedding = True"
| "is_decoder_event Call_enc_dec_model = True"
| "is_decoder_event Call_word_embeddings_weight = True"
| "is_decoder_event Call_tokens_head = True"
| "is_decoder_event (Call_vocab_parallel_cross_entropy _) = True"
| "is_decoder_event _ = False"

subsection \<open>Checkpoints\<close>

text \<open>
  Modelled from the spec: the class \<^verbatim>\<open>Embedding\<close> is not in this file. Of the names this
  module looks up on an embedding table, the three below are its methods; the one of line
  510, \<^verbatim>\<open>encoder_embeddingload_state_dict\<close>, is not ("a typo", section 9), and looking
  it up raises \<^verbatim>\<open>AttributeError\<close>.
\<close>

datatype embedding_method = State_dict_for_save_checkpoint | Load_state_dict | Zero_parameters

definition embedding_getattr :: "string \<Rightarrow> error + embedding_method" where
  "embedding_getattr name =
     (if name = ''state_dict_for_save_checkpoint'' then Inr State_dict_for_save_checkpoint
      else if name = ''load_state_dict'' then Inr Load_state_dict
      else if name = ''zero_parameters'' then Inr Zero_parameters
      else Inl (AttributeError name))"

definition attr :: "string \<Rightarrow> 'a option \<Rightarrow> error + 'a" where
  "attr name x = (case x of None \<Rightarrow> Inl (AttributeError name) | Some v \<Rightarrow> Inr v)"

definition getitem :: "(string \<rightharpoonup> state_section) \<Rightarrow> string \<Rightarrow> error + state_section" where
  "getitem d k = (case d k of None \<Rightarrow> Inl (KeyError k) | Some v \<Rightarrow> Inr v)"

text \<open>
  \<^verbatim>\<open>state_dict_for_save_checkpoint\<close> (lines 486-505). The key attributes
  \<^verbatim>\<open>_encoder_embedding_key\<close> and so on are set where the sub-object is, and hold the
  strings below. In \<^verbatim>\<open>d[k] = v\<close> Python evaluates \<^verbatim>\<open>v\<close> first.
\<close>

definition state_dict_for_save_checkpoint ::
  "collab \<Rightarrow> token_level_module \<Rightarrow> store \<Rightarrow> error + (string \<rightharpoonup> state_section)" where
  "state_dict_for_save_checkpoint c m st =
     bindE (attr ''encoder_embedding'' (encoder_embedding m)) (\<lambda>ea.
     bindE (attr ''decoder_embedding'' (decoder_embedding m)) (\<lambda>da.
     bindE (attr ''tokens_head'' (tokens_head m)) (\<lambda>h.
     Inr (Map.empty
       (''encoder_embedding'' \<mapsto> embedding_state_dict c (objs st ea),
        ''decoder_embedding'' \<mapsto> embedding_state_dict c (objs st da),
        ''enc_dec_model'' \<mapsto> coordinator_state_dict c (enc_dec_model m),
        ''tokens_head'' \<mapsto> head_state_dict c h)))))"

text \<open>
  \<^verbatim>\<open>load_state_dict\<close> (lines 507-513). Line 510 looks up the method
  \<^verbatim>\<open>encoder_embeddingload_state_dict\<close> on the encoder's embedding table; the callee is
  looked up before the arguments are evaluated. A method other than the loading one would
  not take these arguments (\<^verbatim>\<open>TypeError\<close>).
\<close>

definition load_embedding ::
  "collab \<Rightarrow> string \<Rightarrow> nat \<Rightarrow> error + state_section \<Rightarrow> bool \<Rightarrow> store \<Rightarrow> error + store" where
  "load_embedding c method_name a sec strict st =
     bindE (embedding_getattr method_name) (\<lambda>meth.
     bindE sec (\<lambda>s.
     case meth of
       Load_state_dict \<Rightarrow>
         bindE (embedding_load_state_dict c (objs st a) s strict) (\<lambda>e.
         Inr (update_obj a (\<lambda>_. e) st))
     | _ \<Rightarrow> Inl TypeError))"

definition load_state_dict ::
  "collab \<Rightarrow> token_level_module \<Rightarrow> store \<Rightarrow> (string \<rightharpoonup> state_section) \<Rightarrow> bool \<Rightarrow>
   error + (token_level_module \<times> store)" where
  "load_state_dict c m st state_dict strict =
     bindE (attr ''encoder_embedding'' (encoder_embedding m)) (\<lambda>ea.
     bindE
       (load_embedding c ''encoder_embeddingload_state_dict'' ea
          (getitem state_dict ''encoder_embedding'') strict st)
       (\<lambda>st1.
     bindE (attr ''decoder_embedding'' (decoder_embedding m)) (\<lambda>da.
     bindE
       (load_embedding c ''load_state_dict'' da
          (getitem state_dict ''decoder_embedding'') strict st1)
       (\<lambda>st2.
     bindE (getitem state_dict ''enc_dec_model'') (\<lambda>s.
     bindE (coordinator_load_state_dict c (enc_dec_model m) s strict) (\<lambda>co.
     bindE (attr ''tokens_head'' (tokens_head m)) (\<lambda>h.
     bindE (getitem state_dict ''tokens_head'') (\<lambda>s'.
     bindE (head_load_state_dict c h s' strict) (\<lambda>h'.
     Inr (m\<lparr>enc_dec_model := co, tokens_head := Some h'\<rparr>, st2))))))))))"

subsection \<open>What construction establishes\<close>

text \<open>
  Which attributes exist on a module follows from its flags: the constructor establishes
  this (lemma \<open>init_module_inv\<close>) and \<^verbatim>\<open>set_input_tensor\<close> keeps it.
\<close>

fun is_token_level_head :: "head \<Rightarrow> bool" where
  "is_token_level_head (TokenLevelHead _) = True"
| "is_token_level_head (ColumnParallelLinear _) = False"

definition module_inv :: "token_level_module \<Rightarrow> bool" where
  "module_inv m =
     ((encoder (enc_dec_model m) \<noteq> None) = add_encoder m \<and>
      (decoder (enc_dec_model m) \<noteq> None) = add_decoder m \<and>
      (encoder_embedding m \<noteq> None) = (add_encoder m \<and> pre_process m) \<and>
      (decoder_embedding m \<noteq> None) = (add_decoder m \<and> pre_process m) \<and>
      (encoder_relative_position_embedding m \<noteq> None) =
        (add_encoder m \<and> pre_process m \<and> position_embedding_type m = ''relative'') \<and>
      (decoder_relative_position_embedding m \<noteq> None) =
        (add_decoder m \<and> pre_process m \<and> position_embedding_type m = ''relative'') \<and>
      (decoder_cross_attention_relative_position_embedding m \<noteq> None) =
        (add_decoder m \<and> pre_process m \<and> position_embedding_type m = ''relative'' \<and>
         \<not> relative_position_bias_self_attention_only m) \<and>
      map_option is_token_level_head (tokens_head m) =
        (if add_decoder m \<and> post_process m
         then Some (share_decoder_tokens_head_embeddings m) else None))"

definition is_list :: "pyval \<Rightarrow> bool" where
  "is_list v = (case v of PyList _ \<Rightarrow> True | _ \<Rightarrow> False)"

text \<open>
  Token ids or labels that lie in a vocabulary of \<open>v\<close> entries: a tensor of two
  dimensions whose entries are the numbers \<open>0, ..., v - 1\<close>.
\<close>

definition ids_in_range :: "tensor \<Rightarrow> nat \<Rightarrow> bool" where
  "ids_in_range ids v =
     (\<exists>b s. shape ids = [b, s] \<and> (\<forall>i<b. \<forall>j<s. \<exists>n<v. elems ids [i, j] = real n))"

text \<open>
  An embedding table with \<open>v\<close> words of width \<open>h\<close> and, if it has position
  embeddings, \<open>n\<close> positions; and two stores whose tables have the same shapes (training
  changes the weights of a table, not its shape, nor whether it has position embeddings).
\<close>

definition table_shape :: "embedding \<Rightarrow> nat \<Rightarrow> nat \<Rightarrow> nat \<Rightarrow> bool" where
  "table_shape e v h n =
     (shape (word_embeddings_weight e) = [v, h] \<and>
      (\<forall>t. position_embeddings_weight e = Some t \<longrightarrow> shape t = [n, h]))"

definition same_shapes :: "store \<Rightarrow> store \<Rightarrow> bool" where
  "same_shapes st st' =
     (\<forall>a. shape (word_embeddings_weight (objs st a)) =
             shape (word_embeddings_weight (objs st' a)) \<and>
           map_option shape (position_embeddings_weight (objs st a)) =
             map_option shape (position_embeddings_weight (objs st' a)))"

text \<open>
  What the forward pass needs of its collaborators to run through. Sizes are never fixed
  in advance: they come from the configuration or from the table or weight a collaborator
  is handed.
  \<^item> \<^verbatim>\<open>Embedding(...)\<close> builds a table of \<^verbatim>\<open>vocab_size\<close> words of width
    \<^verbatim>\<open>hidden_size\<close>, with \<^verbatim>\<open>max_position_embeddings\<close> positions if it has any, and
    none for relative position embeddings (\<^verbatim>\<open>add_position_embedding\<close>, lines 147-152);
    \<^verbatim>\<open>ColumnParallelLinear(...)\<close> builds a weight of the same shape as the word table.
  \<^item> \<^verbatim>\<open>word_embeddings_weight()\<close> is the word table of the encoder's embedding on a
    pre-process stage that has one.
  \<^item> Position ids of \<open>[b, s]\<close> token ids have shape \<open>[b, s]\<close> and are positions below
    \<open>s\<close>; a relative position bias is produced for any lengths.
  \<^item> A table of width \<open>h\<close> turns \<open>[b, s]\<close> token ids of its vocabulary, without token
    types, into \<open>[s, b, h]\<close>: a table without position embeddings whatever the position
    ids, any table when it is given \<open>[b, s]\<close> position ids among its positions.
  \<^item> A coordinator with encoder and decoder, given both inputs and no encoder output,
    returns a pair whose first part has the shape of the decoder's input.
  \<^item> Either head turns \<open>[s, b, h]\<close> and a weight \<open>[v, h]\<close> (the tied head: with a bias
    \<open>[v]\<close>) into logits \<open>[s, b, v]\<close>.
  \<^item> The cross-entropy of \<open>[s, b, v]\<close> logits and \<open>[s, b]\<close> labels of that vocabulary has
    one loss per label.
\<close>

definition collab_shapes :: "collab \<Rightarrow> bool" where
  "collab_shapes c =
     ((\<forall>cfg a e. Embedding c cfg a = Inr e \<longrightarrow>
         table_shape e (nat (cfg_vocab_size cfg)) (nat (cfg_hidden_size cfg))
           (nat (cfg_max_position_embeddings cfg)) \<and>
         (cfg_position_embedding_type cfg = ''relative'' \<longrightarrow>
            position_embeddings_weight e = None)) \<and>
      (\<forall>cfg w. new_ColumnParallelLinear c cfg = Inr w \<longrightarrow>
         shape w = [nat (cfg_vocab_size cfg), nat (cfg_hidden_size cfg)]) \<and>
      (\<forall>m st a. pre_process m \<and> encoder_embedding m = Some a \<longrightarrow>
         get_word_embeddings_weight c m st = Inr (word_embeddings_weight (objs st a))) \<and>
      (\<forall>t b s. shape t = [b, s] \<longrightarrow>
         (\<exists>p. build_position_ids c (Some t) = Inr p \<and> shape p = [b, s] \<and>
              ids_in_range p s)) \<and>
      (\<forall>r q k. \<exists>x. rpe_forward c r q k = Inr x) \<and>
      (\<forall>e ids pos b s v h n.
         shape ids = [b, s] \<and> ids_in_range ids v \<and> table_shape e v h n \<and>
         position_embeddings_weight e = None \<longrightarrow>
         (\<exists>x. embedding_forward c e (Some ids) pos None = Inr x \<and> shape x = [s, b, h])) \<and>
      (\<forall>e ids p b s v h n.
         shape ids = [b, s] \<and> ids_in_range ids v \<and> table_shape e v h n \<and>
         shape p = [b, s] \<and> ids_in_range p n \<longrightarrow>
         (\<exists>x. embedding_forward c e (Some ids) (Some p) None = Inr x \<and>
              shape x = [s, b, h])) \<and>
      (\<forall>co args x d.
         encoder co \<noteq> None \<and> decoder co \<noteq> None \<and> ed_enc_input args = Some x \<and>
         ed_enc_output args = None \<and> ed_dec_input args = Some d \<longrightarrow>
         (\<exists>y z. enc_dec_forward c co args = Inr (PyTuple [PyTensor y, z]) \<and>
                 shape y = shape d)) \<and>
      (\<forall>t w po bi as s b v h. shape t = [s, b, h] \<and> shape w = [v, h] \<and> shape bi = [v] \<longrightarrow>
         (\<exists>l. parallel_lm_logits c (PyTensor t) w po bi as = Inr l \<and> shape l = [s, b, v])) \<and>
      (\<forall>t w s b v h. shape t = [s, b, h] \<and> shape w = [v, h] \<longrightarrow>
         (\<exists>l z. column_parallel_linear_forward c w (PyTensor t) = Inr (l, z) \<and>
                 shape l = [s, b, v])) \<and>
      (\<forall>l lab s b v. shape l = [s, b, v] \<and> shape lab = [s, b] \<and> ids_in_range lab v \<longrightarrow>
         (\<exists>x. vocab_parallel_cross_entropy c l lab = Inr x \<and> shape x = [s, b])))"

subsection \<open>A concrete instance\<close>

text \<open>
  Small stand-ins for the collaborators, to run the module on concrete inputs. They take
  their sizes from the configuration and from the tables and weights they are handed. The
  logits of \<open>demo_collab_of dt\<close> have dtype \<open>dt\<close>.
\<close>

definition demo_weight :: "nat list \<Rightarrow> nat \<Rightarrow> tensor" where
  "demo_weight sh a = \<lparr>shape = sh, dtype = Float32, elems = (\<lambda>idx. 1 + real (a + sum_list idx))\<rparr>"

definition demo_Embedding :: "config \<Rightarrow> nat \<Rightarrow> error + embedding" where
  "demo_Embedding cfg a =
     Inr \<lparr>word_embeddings_weight =
            demo_weight [nat (cfg_vocab_size cfg), nat (cfg_hidden_size cfg)] a,
          position_embeddings_weight =
            (if cfg_position_embedding_type cfg = ''learned_absolute''
             then Some (demo_weight
                          [nat (cfg_max_position_embeddings cfg), nat (cfg_hidden_size cfg)] a)
             else None),
          tokentype_embeddings_weight = None\<rparr>"

definition demo_network :: "config \<Rightarrow> int \<Rightarrow> error + network" where
  "demo_network cfg kv =
     Inr \<lparr>net_weights = demo_weight [nat (cfg_hidden_size cfg), nat (cfg_hidden_size cfg)] 0,
          input_tensor = PyNone\<rparr>"

definition demo_word_embeddings_weight :: "token_level_module \<Rightarrow> store \<Rightarrow> error + tensor" where
  "demo_word_embeddings_weight m st =
     (case encoder_embedding m of
        Some a \<Rightarrow> Inr (word_embeddings_weight (objs st a))
      | None \<Rightarrow>
          (case decoder_embedding m of
             Some a \<Rightarrow> Inr (word_embeddings_weight (objs st a))
           | None \<Rightarrow> Inl (ValueError ''no word embeddings'')))"

definition demo_embedding_forward ::
  "embedding \<Rightarrow> tensor option \<Rightarrow> tensor option \<Rightarrow> tensor option \<Rightarrow> error + tensor" where
  "demo_embedding_forward e ids pos tt =
     (case ids of
        None \<Rightarrow> Inl (CollaboratorError ''ids'')
      | Some t \<Rightarrow>
          (case (shape t, shape (word_embeddings_weight e)) of
             ([b, s], [v, h]) \<Rightarrow>
               Inr \<lparr>shape = [s, b, h], dtype = Float32,
                    elems = (\<lambda>idx. case idx of
                               [i, j, k] \<Rightarrow>
                                 elems (word_embeddings_weight e) [nat \<lfloor>elems t [j, i]\<rfloor>, k]
                             | _ \<Rightarrow> 0)\<rparr>
           | _ \<Rightarrow> Inl (CollaboratorError ''shape'')))"

definition demo_encode :: "coordinator \<Rightarrow> tensor option \<Rightarrow> tensor option \<Rightarrow> error + pyval" where
  "demo_encode co ei am =
     (case encoder co of
        None \<Rightarrow> Inl (AttributeError ''encoder'')
      | Some n \<Rightarrow> (case ei of Some t \<Rightarrow> Inr (PyTensor t) | None \<Rightarrow> Inr (input_tensor n)))"

definition demo_enc_dec_forward :: "coordinator \<Rightarrow> enc_dec_args \<Rightarrow> error + pyval" where
  "demo_enc_dec_forward co args =
     bindE
       (case ed_enc_output args of
          Some t \<Rightarrow> Inr (PyTensor t)
        | None \<Rightarrow>
            (case encoder co of
               Some n \<Rightarrow>
                 Inr (case ed_enc_input args of Some t \<Rightarrow> PyTensor t | None \<Rightarrow> input_tensor n)
             | None \<Rightarrow> attr ''encoder_hidden_state'' (encoder_hidden_state co)))
       (\<lambda>enc_out.
          case decoder co of
            None \<Rightarrow> Inr enc_out
          | Some n \<Rightarrow>
              (case ed_dec_input args of
                 Some d \<Rightarrow> Inr (PyTuple [PyTensor d, enc_out])
               | None \<Rightarrow> Inr (PyTuple [input_tensor n, enc_out])))"

definition demo_logits :: "dtype \<Rightarrow> pyval \<Rightarrow> tensor \<Rightarrow> error + tensor" where
  "demo_logits dt hs w =
     (case hs of
        PyTensor t \<Rightarrow>
          (case (shape t, shape w) of
             ([s, b, h], [v, h']) \<Rightarrow>
               if h = h' then
                 Inr \<lparr>shape = [s, b, v], dtype = dt,
                      elems = (\<lambda>idx. case idx of
                                 [i, j, k] \<Rightarrow> elems t [i, j, 0] * elems w [k, 0]
                               | _ \<Rightarrow> 0)\<rparr>
               else Inl (CollaboratorError ''hidden'')
           | _ \<Rightarrow> Inl (CollaboratorError ''shape''))
      | _ \<Rightarrow> Inl (CollaboratorError ''hidden_states''))"

definition demo_cross_entropy :: "tensor \<Rightarrow> tensor \<Rightarrow> error + tensor" where
  "demo_cross_entropy l lab =
     (case (shape l, shape lab) of
        ([s, b, v], [s', b']) \<Rightarrow>
          if s = s' \<and> b = b' then
            Inr \<lparr>shape = [s, b], dtype = Float32,
                 elems = (\<lambda>idx. case idx of
                            [i, j] \<Rightarrow> - elems l [i, j, nat \<lfloor>elems lab [i, j]\<rfloor>]
                          | _ \<Rightarrow> 0)\<rparr>
          else Inl (CollaboratorError ''labels'')
      | _ \<Rightarrow> Inl (CollaboratorError ''shape''))"

definition demo_load :: "state_section \<Rightarrow> bool \<Rightarrow> 'a \<Rightarrow> (tensor \<Rightarrow> 'a) \<Rightarrow> error + 'a" where
  "demo_load s strict old new =
     (case map_of s ''weight'' of
        Some w \<Rightarrow> Inr (new w)
      | None \<Rightarrow> if strict then Inl (KeyError ''weight'') else Inr old)"

definition demo_collab_of :: "dtype \<Rightarrow> collab" where
  "demo_collab_of dt =
     \<lparr>Embedding = demo_Embedding,
      T5RelativePositionEmbedding =
        (\<lambda>cfg bi. Inr \<lparr>rpe_weight = demo_weight [32, 1] 0, bidirectional = bi\<rparr>),
      get_encoder_model = demo_network,
      get_decoder_model = demo_network,
      initialize_word_embeddings = (\<lambda>m st. Inr None),
      get_word_embeddings_weight = demo_word_embeddings_weight,
      new_ColumnParallelLinear =
        (\<lambda>cfg. Inr (demo_weight [nat (cfg_vocab_size cfg), nat (cfg_hidden_size cfg)] 0)),
      build_position_ids =
        (\<lambda>x. case x of
                None \<Rightarrow> Inl (AttributeError ''size'')
              | Some t \<Rightarrow> Inr (t\<lparr>elems := (\<lambda>idx. case idx of [i, j] \<Rightarrow> real j | _ \<Rightarrow> 0)\<rparr>)),
      embedding_forward = demo_embedding_forward,
      rpe_forward = (\<lambda>r q k. Inr (demo_weight [1, q, k] 0)),
      encode = demo_encode,
      enc_dec_forward = demo_enc_dec_forward,
      tensor_model_parallel_world_size = 1,
      parallel_lm_logits = (\<lambda>hs w po bi as. demo_logits dt hs w),
      column_parallel_linear_forward =
        (\<lambda>w hs. case demo_logits dt hs w of Inl e \<Rightarrow> Inl e | Inr l \<Rightarrow> Inr (l, PyNone)),
      vocab_parallel_cross_entropy = demo_cross_entropy,
      embedding_state_dict = (\<lambda>e. [(''weight'', word_embeddings_weight e)]),
      coordinator_state_dict = (\<lambda>co. []),
      head_state_dict =
        (\<lambda>h. case h of TokenLevelHead th \<Rightarrow> [(''weight'', bias th)]
                      | ColumnParallelLinear w \<Rightarrow> [(''weight'', w)]),
      embedding_load_state_dict =
        (\<lambda>e s strict. demo_load s strict e (\<lambda>w. e\<lparr>word_embeddings_weight := w\<rparr>)),
      coordinator_load_state_dict = (\<lambda>co s strict. Inr co),
      head_load_state_dict =
        (\<lambda>h s strict. demo_load s strict h
           (\<lambda>w. case h of TokenLevelHead th \<Rightarrow> TokenLevelHead (th\<lparr>bias := w\<rparr>)
                         | ColumnParallelLinear _ \<Rightarrow> ColumnParallelLinear w))\<rparr>"

definition demo_collab :: collab where
  "demo_collab = demo_collab_of Float32"

definition demo_half_collab :: collab where
  "demo_half_collab = demo_collab_of Half"

definition demo_config :: config where
  "demo_config =
     \<lparr>cfg_vocab_size = 4,
      cfg_hidden_size = 2,
      cfg_max_position_embeddings = 8,
      cfg_num_attention_heads = 1,
      cfg_kv_channels = None,
      cfg_num_tokentypes = 0,
      cfg_parallel_output = True,
      cfg_pre_process = True,
      cfg_post_process = True,
      cfg_fp16_cross_entropy = False,
      cfg_position_embedding_type = ''learned_absolute'',
      cfg_relative_position_bias_self_attention_only = False,
      cfg_hidden_steps = - 1,
      cfg_add_encoder = True,
      cfg_add_decoder = True,
      cfg_share_token_embeddings = True,
      cfg_share_decoder_tokens_head_embeddings = True\<rparr>"

definition demo_store :: store where
  "demo_store = \<lparr>objs = (\<lambda>_. \<lparr>word_embeddings_weight = demo_weight [0, 0] 0,
                                position_embeddings_weight = None,
                                tokentype_embeddings_weight = None\<rparr>),
                 next_addr = 0\<rparr>"

text \<open>Token ids of shape \<open>[2, 5]\<close>: the entry at \<open>[i, j]\<close> is \<open>(i + j) mod 4\<close>.\<close>

definition demo_ids :: tensor where
  "demo_ids = \<lparr>shape = [2, 5], dtype = Int64,
               elems = (\<lambda>idx. case idx of [i, j] \<Rightarrow> real ((i + j) mod 4) | _ \<Rightarrow> 0)\<rparr>"

definition demo_args :: fwd_args where
  "demo_args =
     \<lparr>enc_input_ids = Some demo_ids,
      enc_attn_mask = None,
      dec_input_ids = Some demo_ids,
      dec_attn_mask = None,
      token_type_ids = None,
      labels = None,
      enc_output = None,
      enc_output_attn_mask = None,
      enc_input = None,
      output_enc_hidden_only = False\<rparr>"

text \<open>
  What the constructor builds from \<open>demo_config\<close> in \<open>demo_store\<close> (lemma \<open>demo_init\<close>):
  one embedding table, at address 0, named by both embedding attributes. No encoder hidden
  state is stored.
\<close>

definition demo_table :: embedding where
  "demo_table =
     \<lparr>word_embeddings_weight = demo_weight [4, 2] 0,
      position_embeddings_weight = Some (demo_weight [8, 2] 0),
      tokentype_embeddings_weight = None\<rparr>"

definition demo_net :: network where
  "demo_net = \<lparr>net_weights = demo_weight [2, 2] 0, input_tensor = PyNone\<rparr>"

definition demo_module :: token_level_module where
  "demo_module =
     \<lparr>parallel_output = True,
      pre_process = True,
      post_process = True,
      fp16_cross_entropy = False,
      add_encoder = True,
      add_decoder = True,
      position_embedding_type = ''learned_absolute'',
      share_token_embeddings = True,
      share_decoder_tokens_head_embeddings = True,
      relative_position_bias_self_attention_only = False,
      encoder_embedding = Some 0,
      encoder_relative_position_embedding = None,
      decoder_embedding = Some 0,
      decoder_relative_position_embedding = None,
      decoder_cross_attention_relative_position_embedding = None,
      enc_dec_model =
        \<lparr>encoder = Some demo_net, decoder = Some demo_net, hidden_steps = - 1,
         encoder_hidden_state = None\<rparr>,
      word_embeddings = None,
      tokens_head = Some (TokenLevelHead (MegatronTokenLevelHead 4 True))\<rparr>"

definition demo_store' :: store where
  "demo_store' = \<lparr>objs = (objs demo_store)(0 := demo_table), next_addr = 1\<rparr>"

text \<open>
  The same configuration on a stage without the encoder (lemma \<open>demo_decoder_init\<close>):
  the decoder has a table of its own, zeroed. \<open>demo_fed_decoder_module\<close> is that module
  after \<^verbatim>\<open>set_input_tensor([demo_embedded])\<close> (lemma \<open>demo_decoder_fed\<close>).
\<close>

definition demo_decoder_config :: config where
  "demo_decoder_config = demo_config\<lparr>cfg_add_encoder := False\<rparr>"

definition demo_decoder_module :: token_level_module where
  "demo_decoder_module =
     demo_module
       \<lparr>add_encoder := False,
        encoder_embedding := None,
        enc_dec_model :=
          \<lparr>encoder = None, decoder = Some demo_net, hidden_steps = - 1,
           encoder_hidden_state = None\<rparr>\<rparr>"

definition demo_decoder_store :: store where
  "demo_decoder_store =
     \<lparr>objs = (objs demo_store)(0 := zero_parameters demo_table), next_addr = 1\<rparr>"

text \<open>
  The events of lines 384-398, where the encoder's input is made from the token ids.
\<close>

fun is_enc_input_event :: "event \<Rightarrow> bool" where
  "is_enc_input_event Call_build_position_ids_enc = True"
| "is_enc_input_event (Call_encoder_embedding _) = True"
| "is_enc_input_event Call_encoder_relative_position_embedding = True"
| "is_enc_input_event _ = False"

fun is_cross_entropy_event :: "event \<Rightarrow> bool" where
  "is_cross_entropy_event (Call_vocab_parallel_cross_entropy _) = True"
| "is_cross_entropy_event _ = False"

text \<open>
  What \<open>demo_embedding_forward\<close> makes of \<open>demo_ids\<close> with the table of \<open>demo_module\<close>;
  a call that asks for the encoder's hidden state only while it supplies an
  \<^verbatim>\<open>enc_output\<close> of its own, and one that supplies none.
\<close>

definition demo_embedded :: tensor where
  "demo_embedded =
     \<lparr>shape = [5, 2, 2], dtype = Float32,
      elems = (\<lambda>idx. case idx of
                 [i, j, k] \<Rightarrow>
                   elems (word_embeddings_weight demo_table) [nat \<lfloor>elems demo_ids [j, i]\<rfloor>, k]
               | _ \<Rightarrow> 0)\<rparr>"

definition demo_supplied :: tensor where
  "demo_supplied = demo_weight [2, 5, 2] 7"

definition demo_hidden_only_args :: fwd_args where
  "demo_hidden_only_args =
     demo_args\<lparr>enc_output := Some demo_supplied, output_enc_hidden_only := True\<rparr>"

definition demo_encode_args :: fwd_args where
  "demo_encode_args = demo_args\<lparr>output_enc_hidden_only := True\<rparr>"

definition demo_fed_decoder_module :: token_level_module where
  "demo_fed_decoder_module =
     demo_decoder_module
       \<lparr>enc_dec_model :=
          \<lparr>encoder = None, decoder = Some demo_net, hidden_steps = - 1,
           encoder_hidden_state = Some (PyTensor demo_embedded)\<rparr>\<rparr>"

text \<open>
  The logits \<open>demo_logits dt\<close> makes of \<open>demo_embedded\<close>, a call with labels, and the
  configuration and module with \<^verbatim>\<open>fp16_cross_entropy\<close> set (lemma \<open>demo_fp16_init\<close>).
\<close>

definition demo_logit_tensor :: "dtype \<Rightarrow> tensor" where
  "demo_logit_tensor dt =
     \<lparr>shape = [5, 2, 4], dtype = dt,
      elems = (\<lambda>idx. case idx of
                 [i, j, k] \<Rightarrow>
                   elems demo_embedded [i, j, 0] * elems (word_embeddings_weight demo_table) [k, 0]
               | _ \<Rightarrow> 0)\<rparr>"

definition demo_label_args :: fwd_args where
  "demo_label_args = demo_args\<lparr>labels := Some demo_ids\<rparr>"

definition demo_fp16_config :: config where
  "demo_fp16_config = demo_config\<lparr>cfg_fp16_cross_entropy := True\<rparr>"

definition demo_fp16_module :: token_level_module where
  "demo_fp16_module = demo_module\<lparr>fp16_cross_entropy := True\<rparr>"

text \<open>The shape of the tensor a computation returns, if it returns one.\<close>

definition result_shape :: "pyval res \<Rightarrow> nat list option" where
  "result_shape r = (case snd r of Inr (PyTensor t) \<Rightarrow> Some (shape t) | _ \<Rightarrow> None)"


section \<open>Properties\<close>

subsection \<open>What the constructor returns\<close>

lemma init_encoder_result:
  assumes "init_encoder c cfg kv st = Inr (ee, er, en, st')"
  shows "(en \<noteq> None) = cfg_add_encoder cfg"
    and "(ee \<noteq> None) = (cfg_add_encoder cfg \<and> cfg_pre_process cfg)"
    and "(er \<noteq> None) = (cfg_add_encoder cfg \<and> cfg_pre_process cfg \<and>
                          cfg_position_embedding_type cfg = ''relative'')"
    and "ee = None \<Longrightarrow> st' = st"
    and "ee \<noteq> None \<Longrightarrow> ee = Some (next_addr st) \<and> next_addr st' = Suc (next_addr st)"
  using assms
  by (auto simp: init_encoder_def bindE_def alloc_def split: if_splits sum.splits prod.splits)

lemma init_decoder_embedding_shared:
  "cfg_share_token_embeddings cfg \<Longrightarrow>
   init_decoder_embedding c cfg (Some a) st = Inr (a, st)"
  by (simp add: init_decoder_embedding_def)

lemma init_decoder_embedding_new:
  assumes "init_decoder_embedding c cfg ee st = Inr (a, st')"
    and "ee = None \<or> \<not> cfg_share_token_embeddings cfg"
  shows "\<exists>e. Embedding c cfg (next_addr st) = Inr e \<and> a = next_addr st \<and>
             next_addr st' = Suc (next_addr st) \<and>
             objs st' a = (if cfg_share_token_embeddings cfg then zero_parameters e else e)"
  using assms
  by (auto simp: init_decoder_embedding_def bindE_def alloc_def update_obj_def
      split: if_splits sum.splits prod.splits option.splits bool.splits)

lemma init_decoder_rpe_result:
  assumes "init_decoder_rpe c cfg = Inr (dr, dx)"
  shows "(dr \<noteq> None) = (cfg_position_embedding_type cfg = ''relative'')"
    and "(dx \<noteq> None) = (cfg_position_embedding_type cfg = ''relative'' \<and>
                          \<not> cfg_relative_position_bias_self_attention_only cfg)"
  using assms
  by (auto simp: init_decoder_rpe_def bindE_def split: if_splits sum.splits)

lemma init_decoder_result:
  assumes "init_decoder c cfg kv ee st = Inr (de, dr, dx, dn, st')"
  shows "(dn \<noteq> None) = cfg_add_decoder cfg"
    and "(de \<noteq> None) = (cfg_add_decoder cfg \<and> cfg_pre_process cfg)"
    and "(dr \<noteq> None) = (cfg_add_decoder cfg \<and> cfg_pre_process cfg \<and>
                          cfg_position_embedding_type cfg = ''relative'')"
    and "(dx \<noteq> None) = (cfg_add_decoder cfg \<and> cfg_pre_process cfg \<and>
                          cfg_position_embedding_type cfg = ''relative'' \<and>
                          \<not> cfg_relative_position_bias_self_attention_only cfg)"
    and "cfg_add_decoder cfg \<and> cfg_pre_process cfg \<Longrightarrow>
         \<exists>a. de = Some a \<and> init_decoder_embedding c cfg ee st = Inr (a, st')"
  using assms
  by (auto simp: init_decoder_def bindE_def split: if_splits sum.splits prod.splits
      dest: init_decoder_rpe_result)

lemma init_tokens_head_result:
  assumes "init_tokens_head c cfg m st = Inr h"
  shows "map_option is_token_level_head h =
           (if cfg_add_decoder cfg \<and> cfg_post_process cfg
            then Some (cfg_share_decoder_tokens_head_embeddings cfg) else None)"
  using assms
  by (auto simp: init_tokens_head_def bindE_def split: if_splits sum.splits)

text \<open>The shape of a successful construction.\<close>

lemma init_Inr:
  assumes "init c cfg st = Inr (m, st')"
  obtains kv ee er en st1 de dr dx dn w h where
    "init_encoder c cfg kv st = Inr (ee, er, en, st1)"
    "init_decoder c cfg kv ee st1 = Inr (de, dr, dx, dn, st')"
    "m = \<lparr>parallel_output = cfg_parallel_output cfg,
          pre_process = cfg_pre_process cfg,
          post_process = cfg_post_process cfg,
          fp16_cross_entropy = cfg_fp16_cross_entropy cfg,
          add_encoder = cfg_add_encoder cfg,
          add_decoder = cfg_add_decoder cfg,
          position_embedding_type = cfg_position_embedding_type cfg,
          share_token_embeddings = cfg_share_token_embeddings cfg,
          share_decoder_tokens_head_embeddings = cfg_share_decoder_tokens_head_embeddings cfg,
          relative_position_bias_self_attention_only =
            cfg_relative_position_bias_self_attention_only cfg,
          encoder_embedding = ee,
          encoder_relative_position_embedding = er,
          decoder_embedding = de,
          decoder_relative_position_embedding = dr,
          decoder_cross_attention_relative_position_embedding = dx,
          enc_dec_model = new_coordinator en dn (cfg_hidden_steps cfg),
          word_embeddings = w,
          tokens_head = h\<rparr>"
    "init_tokens_head c cfg (m\<lparr>tokens_head := None\<rparr>) st' = Inr h"
  using assms
  unfolding init_def Let_def
  by (auto simp: bindE_def split: sum.splits prod.splits if_splits)

lemma init_module_inv:
  assumes "init c cfg st = Inr (m, st')"
  shows "module_inv m"
proof -
  from assms obtain kv ee er en st1 de dr dx dn w h where
    e: "init_encoder c cfg kv st = Inr (ee, er, en, st1)" and
    d: "init_decoder c cfg kv ee st1 = Inr (de, dr, dx, dn, st')" and
    m: "m = \<lparr>parallel_output = cfg_parallel_output cfg,
          pre_process = cfg_pre_process cfg,
          post_process = cfg_post_process cfg,
          fp16_cross_entropy = cfg_fp16_cross_entropy cfg,
          add_encoder = cfg_add_encoder cfg,
          add_decoder = cfg_add_decoder cfg,
          position_embedding_type = cfg_position_embedding_type cfg,
          share_token_embeddings = cfg_share_token_embeddings cfg,
          share_decoder_tokens_head_embeddings = cfg_share_decoder_tokens_head_embeddings cfg,
          relative_position_bias_self_attention_only =
            cfg_relative_position_bias_self_attention_only cfg,
          encoder_embedding = ee,
          encoder_relative_position_embedding = er,
          decoder_embedding = de,
          decoder_relative_position_embedding = dr,
          decoder_cross_attention_relative_position_embedding = dx,
          enc_dec_model = new_coordinator en dn (cfg_hidden_steps cfg),
          word_embeddings = w,
          tokens_head = h\<rparr>" and
    h: "init_tokens_head c cfg (m\<lparr>tokens_head := None\<rparr>) st' = Inr h"
    by (rule init_Inr)
  show ?thesis
    unfolding module_inv_def
    using init_encoder_result(1,2,3)[OF e] init_decoder_result(1,2,3,4)[OF d]
      init_tokens_head_result[OF h]
    by (simp add: m new_coordinator_def)
qed

lemma module_inv_encoder:
  "module_inv m \<Longrightarrow> add_encoder m \<Longrightarrow> \<exists>n. encoder (enc_dec_model m) = Some n"
  by (auto simp: module_inv_def)

lemma module_inv_decoder:
  "module_inv m \<Longrightarrow> add_decoder m \<Longrightarrow> \<exists>n. decoder (enc_dec_model m) = Some n"
  by (auto simp: module_inv_def)

text \<open>\<^verbatim>\<open>set_input_tensor\<close> changes no flag and no attribute's existence.\<close>

lemma module_inv_enc_dec_model:
  assumes "(encoder co \<noteq> None) = (encoder (enc_dec_model m) \<noteq> None)"
    and "(decoder co \<noteq> None) = (decoder (enc_dec_model m) \<noteq> None)"
  shows "module_inv (m\<lparr>enc_dec_model := co\<rparr>) = module_inv m"
  using assms by (simp add: module_inv_def)

lemma encoder_set_input_tensor_module_inv:
  "encoder_set_input_tensor m v = Inr m' \<Longrightarrow> module_inv m' = module_inv m"
  by (cases "encoder (enc_dec_model m)")
    (auto simp: encoder_set_input_tensor_def module_inv_enc_dec_model)

lemma decoder_set_input_tensor_module_inv:
  "decoder_set_input_tensor m v = Inr m' \<Longrightarrow> module_inv m' = module_inv m"
  by (cases "decoder (enc_dec_model m)")
    (auto simp: decoder_set_input_tensor_def module_inv_enc_dec_model)

lemma set_encoder_hidden_state_module_inv:
  "module_inv (set_encoder_hidden_state m v) = module_inv m"
  by (simp add: set_encoder_hidden_state_def module_inv_enc_dec_model)

lemma set_input_tensor_cases:
  assumes "set_input_tensor m v = Inr m'"
  shows "(\<exists>x. encoder_set_input_tensor m x = Inr m') \<or>
         (\<exists>x y m1. decoder_set_input_tensor m x = Inr m1 \<and> m' = set_encoder_hidden_state m1 y)"
proof -
  define xs where "xs = (case v of PyList ys \<Rightarrow> ys | _ \<Rightarrow> [v])"
  have s: "set_input_tensor m v =
     (if add_encoder m \<and> add_decoder m then
        if length xs = 1 then encoder_set_input_tensor m (xs ! 0) else Inl AssertionError
      else if add_encoder m then
        if length xs = 1 then encoder_set_input_tensor m (xs ! 0) else Inl AssertionError
      else if add_decoder m then
        if length xs = 2 then
          (case decoder_set_input_tensor m (xs ! 0) of
             Inl e \<Rightarrow> Inl e
           | Inr m' \<Rightarrow> Inr (set_encoder_hidden_state m' (xs ! 1)))
        else if length xs = 1 then
          (case decoder_set_input_tensor m PyNone of
             Inl e \<Rightarrow> Inl e
           | Inr m' \<Rightarrow> Inr (set_encoder_hidden_state m' (xs ! 0)))
        else Inl (Exception' ''input_tensor must have either length 1 or 2'')
      else Inl (Exception' ''Stage must have at least either encoder or decoder''))"
    unfolding set_input_tensor_def xs_def Let_def ..
  show ?thesis
  proof (cases "add_encoder m")
    case True
    with assms have "encoder_set_input_tensor m (xs ! 0) = Inr m'"
      unfolding s by (simp split: if_splits)
    then show ?thesis by blast
  next
    case False
    show ?thesis
    proof (cases "length xs = 2")
      case True
      with False assms obtain m1 where "decoder_set_input_tensor m (xs ! 0) = Inr m1"
        "m' = set_encoder_hidden_state m1 (xs ! 1)"
        unfolding s by (simp split: if_splits sum.splits)
      then show ?thesis by blast
    next
      case F: False
      with False assms obtain m1 where "decoder_set_input_tensor m PyNone = Inr m1"
        "m' = set_encoder_hidden_state m1 (xs ! 0)"
        unfolding s by (simp split: if_splits sum.splits)
      then show ?thesis by blast
    qed
  qed
qed

lemma set_input_tensor_module_inv:
  assumes "module_inv m" and "set_input_tensor m v = Inr m'"
  shows "module_inv m'"
  using set_input_tensor_cases [OF assms(2)] assms(1)
  by (auto simp: encoder_set_input_tensor_module_inv decoder_set_input_tensor_module_inv
      set_encoder_hidden_state_module_inv)

subsection \<open>The concrete instance, constructed\<close>

lemmas init_defs = init_def add_position_embedding_def derive_kv_channels_def init_encoder_def
  init_decoder_def init_decoder_embedding_def init_decoder_rpe_def init_tokens_head_def
  bindE_def alloc_def update_obj_def new_coordinator_def size_of_def

lemmas demo_defs = demo_collab_of_def demo_config_def demo_store_def demo_Embedding_def
  demo_network_def demo_word_embeddings_weight_def demo_table_def demo_net_def
  demo_module_def demo_store'_def demo_decoder_config_def demo_decoder_module_def
  demo_decoder_store_def

lemma demo_init_of:
  "init (demo_collab_of dt) demo_config demo_store = Inr (demo_module, demo_store')"
  by (simp add: init_defs demo_defs demo_weight_def)

lemma demo_init: "init demo_collab demo_config demo_store = Inr (demo_module, demo_store')"
  unfolding demo_collab_def by (rule demo_init_of)

lemma demo_fp16_init_of:
  "init (demo_collab_of dt) demo_fp16_config demo_store = Inr (demo_fp16_module, demo_store')"
  by (simp add: init_defs demo_defs demo_weight_def demo_fp16_config_def demo_fp16_module_def)

lemma demo_fp16_init:
  "init demo_collab demo_fp16_config demo_store = Inr (demo_fp16_module, demo_store')"
  unfolding demo_collab_def by (rule demo_fp16_init_of)

lemma demo_decoder_init:
  "init demo_collab demo_decoder_config demo_store = Inr (demo_decoder_module, demo_decoder_store)"
  unfolding demo_collab_def
  by (simp add: init_defs demo_defs demo_weight_def zero_parameters_def fill_zero_def)

lemma demo_module_inv: "module_inv demo_module"
  by (rule init_module_inv [OF demo_init])

lemma demo_decoder_module_inv: "module_inv demo_decoder_module"
  by (rule init_module_inv [OF demo_decoder_init])

subsection \<open>Cross-stage tensor hand-off\<close>

text \<open>
  Claim C3. On a decoder-only stage, \<^verbatim>\<open>set_input_tensor\<close> with a two-element list
  \<open>[t0, t1]\<close> hands \<open>t0\<close> to the decoder and stores \<open>t1\<close> as the encoder hidden state; with
  a one-element list \<open>[t0]\<close> it hands \<^verbatim>\<open>None\<close> to the decoder and stores \<open>t0\<close>. Nothing
  else of the module changes.
\<close>

theorem set_input_tensor_decoder_only:
  assumes "module_inv m" and "add_decoder m" and "\<not> add_encoder m"
  shows "\<exists>n. decoder (enc_dec_model m) = Some n \<and>
           set_input_tensor m (PyList [t0, t1]) =
             Inr (m\<lparr>enc_dec_model := (enc_dec_model m)
                      \<lparr>decoder := Some (n\<lparr>input_tensor := t0\<rparr>),
                       encoder_hidden_state := Some t1\<rparr>\<rparr>) \<and>
           set_input_tensor m (PyList [t0]) =
             Inr (m\<lparr>enc_dec_model := (enc_dec_model m)
                      \<lparr>decoder := Some (n\<lparr>input_tensor := PyNone\<rparr>),
                       encoder_hidden_state := Some t0\<rparr>\<rparr>)"
proof -
  from assms obtain n where n: "decoder (enc_dec_model m) = Some n"
    using module_inv_decoder by blast
  show ?thesis
    using assms(2,3) n
    by (simp add: set_input_tensor_def decoder_set_input_tensor_def
        set_encoder_hidden_state_def net_set_input_tensor_def)
qed

theorem set_input_tensor_decoder_only_witness:
  "module_inv demo_decoder_module \<and> add_decoder demo_decoder_module \<and>
   \<not> add_encoder demo_decoder_module \<and>
   set_input_tensor demo_decoder_module (PyList [PyTensor demo_ids, PyTensor (demo_weight [5, 2, 2] 0)]) =
     Inr (demo_decoder_module\<lparr>enc_dec_model :=
            \<lparr>encoder = None,
             decoder = Some \<lparr>net_weights = demo_weight [2, 2] 0, input_tensor = PyTensor demo_ids\<rparr>,
             hidden_steps = - 1,
             encoder_hidden_state = Some (PyTensor (demo_weight [5, 2, 2] 0))\<rparr>\<rparr>) \<and>
   set_input_tensor demo_decoder_module (PyList [PyTensor demo_ids]) =
     Inr (demo_decoder_module\<lparr>enc_dec_model :=
            \<lparr>encoder = None,
             decoder = Some \<lparr>net_weights = demo_weight [2, 2] 0, input_tensor = PyNone\<rparr>,
             hidden_steps = - 1,
             encoder_hidden_state = Some (PyTensor demo_ids)\<rparr>\<rparr>)"
proof -
  have f: "add_decoder demo_decoder_module" "\<not> add_encoder demo_decoder_module"
    by (simp_all add: demo_decoder_module_def demo_module_def)
  show ?thesis
    using set_input_tensor_decoder_only [OF demo_decoder_module_inv f,
        of "PyTensor demo_ids" "PyTensor (demo_weight [5, 2, 2] 0)"]
      set_input_tensor_decoder_only [OF demo_decoder_module_inv f, of "PyTensor demo_ids" PyNone]
      demo_decoder_module_inv f
    by (auto simp: demo_decoder_module_def demo_module_def demo_net_def)
qed

text \<open>
  Claim C4. For a list argument, \<^verbatim>\<open>set_input_tensor\<close> fails exactly when the stage has an
  encoder and the list is not of length 1, or the stage is decoder-only and the length is
  neither 1 nor 2, or the stage has neither encoder nor decoder.
\<close>

theorem set_input_tensor_fails_iff:
  assumes "module_inv m"
  shows "isl (set_input_tensor m (PyList xs)) =
           ((add_encoder m \<and> length xs \<noteq> 1) \<or>
            (\<not> add_encoder m \<and> add_decoder m \<and> length xs \<noteq> 1 \<and> length xs \<noteq> 2) \<or>
            (\<not> add_encoder m \<and> \<not> add_decoder m))"
proof (cases "add_encoder m")
  case True
  then obtain n where "encoder (enc_dec_model m) = Some n"
    using assms module_inv_encoder by blast
  with True show ?thesis
    by (simp add: set_input_tensor_def encoder_set_input_tensor_def)
next
  case False
  show ?thesis
  proof (cases "add_decoder m")
    case True
    then obtain n where "decoder (enc_dec_model m) = Some n"
      using assms module_inv_decoder by blast
    with True False show ?thesis
      by (simp add: set_input_tensor_def decoder_set_input_tensor_def)
  next
    case F: False
    with False show ?thesis by (simp add: set_input_tensor_def)
  qed
qed

theorem set_input_tensor_fails_iff_witness:
  "module_inv demo_module \<and>
   set_input_tensor demo_module (PyList [PyNone, PyNone]) = Inl AssertionError \<and>
   isl (set_input_tensor demo_module (PyList [PyNone, PyNone])) \<and>
   \<not> isl (set_input_tensor demo_module (PyList [PyNone]))"
proof -
  have f: "add_encoder demo_module" by (simp add: demo_module_def)
  have "set_input_tensor demo_module (PyList [PyNone, PyNone]) = Inl AssertionError"
    by (simp add: set_input_tensor_def demo_module_def)
  then show ?thesis
    using set_input_tensor_fails_iff [OF demo_module_inv, of "[PyNone, PyNone]"]
      set_input_tensor_fails_iff [OF demo_module_inv, of "[PyNone]"] demo_module_inv f
    by simp
qed

text \<open>
  Claim C9. An argument that is not a list is wrapped into a one-element list and handled
  as that list is; on a stage with an encoder a bare value therefore succeeds and is handed
  to the encoder.
\<close>

theorem set_input_tensor_bare:
  assumes "\<not> is_list v"
  shows "set_input_tensor m v = set_input_tensor m (PyList [v]) \<and>
         (module_inv m \<and> add_encoder m \<longrightarrow>
          (\<exists>n. encoder (enc_dec_model m) = Some n \<and>
             set_input_tensor m v =
               Inr (m\<lparr>enc_dec_model :=
                        (enc_dec_model m)\<lparr>encoder := Some (n\<lparr>input_tensor := v\<rparr>)\<rparr>\<rparr>)))"
proof (intro conjI impI)
  show eq: "set_input_tensor m v = set_input_tensor m (PyList [v])"
    using assms by (cases v) (simp_all add: set_input_tensor_def is_list_def)
  assume "module_inv m \<and> add_encoder m"
  then obtain n where "encoder (enc_dec_model m) = Some n" and "add_encoder m"
    using module_inv_encoder by blast
  then show "\<exists>n. encoder (enc_dec_model m) = Some n \<and>
           set_input_tensor m v =
             Inr (m\<lparr>enc_dec_model := (enc_dec_model m)\<lparr>encoder := Some (n\<lparr>input_tensor := v\<rparr>)\<rparr>\<rparr>)"
    unfolding eq
    by (simp add: set_input_tensor_def encoder_set_input_tensor_def net_set_input_tensor_def
        Let_def)
qed

theorem set_input_tensor_bare_witness:
  "\<not> is_list (PyTensor demo_ids) \<and> \<not> is_list PyNone \<and>
   module_inv demo_module \<and> add_encoder demo_module \<and>
   set_input_tensor demo_module (PyTensor demo_ids) =
     Inr (demo_module\<lparr>enc_dec_model :=
            (enc_dec_model demo_module)
              \<lparr>encoder := Some (demo_net\<lparr>input_tensor := PyTensor demo_ids\<rparr>)\<rparr>\<rparr>) \<and>
   set_input_tensor demo_module PyNone = set_input_tensor demo_module (PyList [PyNone])"
proof -
  have l: "\<not> is_list (PyTensor demo_ids)" "\<not> is_list PyNone"
    by (simp_all add: is_list_def)
  have f: "add_encoder demo_module" "encoder (enc_dec_model demo_module) = Some demo_net"
    by (simp_all add: demo_module_def)
  show ?thesis
    using set_input_tensor_bare [OF l(1), of demo_module]
      set_input_tensor_bare [OF l(2), of demo_module] l f demo_module_inv
    by auto
qed

subsection \<open>Embedding tables\<close>

text \<open>
  Claim C5. When token embeddings are shared and encoder and decoder are on the same
  pre-process stage, the decoder's embedding attribute holds the address of the encoder's
  table: the constructor allocates one table only, and an update of the table made through
  either attribute is what the other one reads.
\<close>

theorem shared_embedding_same_object:
  assumes "init c cfg st = Inr (m, st')"
    and "cfg_share_token_embeddings cfg" and "cfg_add_encoder cfg" and "cfg_add_decoder cfg"
    and "cfg_pre_process cfg"
  shows "encoder_embedding m = Some (next_addr st) \<and>
         decoder_embedding m = encoder_embedding m \<and>
         next_addr st' = Suc (next_addr st) \<and>
         (\<forall>a d f. encoder_embedding m = Some a \<and> decoder_embedding m = Some d \<longrightarrow>
            objs (update_obj a f st') d = f (objs st' a) \<and>
            objs (update_obj d f st') a = f (objs st' d))"
proof -
  from assms(1) obtain kv ee er en st1 de dr dx dn w h where
    e: "init_encoder c cfg kv st = Inr (ee, er, en, st1)" and
    d: "init_decoder c cfg kv ee st1 = Inr (de, dr, dx, dn, st')" and
    m: "m = \<lparr>parallel_output = cfg_parallel_output cfg,
          pre_process = cfg_pre_process cfg,
          post_process = cfg_post_process cfg,
          fp16_cross_entropy = cfg_fp16_cross_entropy cfg,
          add_encoder = cfg_add_encoder cfg,
          add_decoder = cfg_add_decoder cfg,
          position_embedding_type = cfg_position_embedding_type cfg,
          share_token_embeddings = cfg_share_token_embeddings cfg,
          share_decoder_tokens_head_embeddings = cfg_share_decoder_tokens_head_embeddings cfg,
          relative_position_bias_self_attention_only =
            cfg_relative_position_bias_self_attention_only cfg,
          encoder_embedding = ee,
          encoder_relative_position_embedding = er,
          decoder_embedding = de,
          decoder_relative_position_embedding = dr,
          decoder_cross_attention_relative_position_embedding = dx,
          enc_dec_model = new_coordinator en dn (cfg_hidden_steps cfg),
          word_embeddings = w,
          tokens_head = h\<rparr>"
    by (rule init_Inr)
  have ee: "ee = Some (next_addr st)" and n1: "next_addr st1 = Suc (next_addr st)"
    using init_encoder_result(2,5)[OF e] assms(3,5) by auto
  obtain a where de: "de = Some a"
    and a: "init_decoder_embedding c cfg ee st1 = Inr (a, st')"
    using init_decoder_result(5)[OF d] assms(4,5) by auto
  have "a = next_addr st" and "st' = st1"
    using a init_decoder_embedding_shared[OF assms(2), of c "next_addr st" st1] ee by auto
  then show ?thesis
    using ee de n1 by (simp add: m update_obj_def)
qed

theorem shared_embedding_same_object_witness:
  "init demo_collab demo_config demo_store = Inr (demo_module, demo_store') \<and>
   encoder_embedding demo_module = Some 0 \<and> decoder_embedding demo_module = Some 0 \<and>
   next_addr demo_store = 0 \<and> next_addr demo_store' = 1 \<and>
   word_embeddings_weight (objs (update_obj 0 zero_parameters demo_store') 0) =
     fill_zero (demo_weight [4, 2] 0)"
proof -
  have f: "cfg_share_token_embeddings demo_config" "cfg_add_encoder demo_config"
    "cfg_add_decoder demo_config" "cfg_pre_process demo_config"
    by (simp_all add: demo_config_def)
  have n: "next_addr demo_store = 0" by (simp add: demo_store_def)
  show ?thesis
    using shared_embedding_same_object [OF demo_init f] n
    by (simp add: demo_init demo_module_def demo_store'_def demo_table_def update_obj_def
        zero_parameters_def)
qed

text \<open>
  Claim C6. When token embeddings are shared and the decoder is on a pre-process stage that
  has no encoder embedding table, the constructor allocates a new table for the decoder and
  zeroes it: in the store the constructor returns, every weight of that table is zero.
\<close>

theorem unshared_stage_decoder_embedding_zero:
  assumes "init c cfg st = Inr (m, st')"
    and "cfg_share_token_embeddings cfg" and "cfg_add_decoder cfg" and "cfg_pre_process cfg"
    and "\<not> cfg_add_encoder cfg"
  shows "encoder_embedding m = None \<and>
         decoder_embedding m = Some (next_addr st) \<and>
         next_addr st' = Suc (next_addr st) \<and>
         (\<exists>e. Embedding c cfg (next_addr st) = Inr e \<and>
              objs st' (next_addr st) = zero_parameters e) \<and>
         (\<forall>idx. elems (word_embeddings_weight (objs st' (next_addr st))) idx = 0) \<and>
         (\<forall>t idx. position_embeddings_weight (objs st' (next_addr st)) = Some t \<longrightarrow>
            elems t idx = 0) \<and>
         (\<forall>t idx. tokentype_embeddings_weight (objs st' (next_addr st)) = Some t \<longrightarrow>
            elems t idx = 0)"
proof -
  from assms(1) obtain kv ee er en st1 de dr dx dn w h where
    e: "init_encoder c cfg kv st = Inr (ee, er, en, st1)" and
    d: "init_decoder c cfg kv ee st1 = Inr (de, dr, dx, dn, st')" and
    m: "m = \<lparr>parallel_output = cfg_parallel_output cfg,
          pre_process = cfg_pre_process cfg,
          post_process = cfg_post_process cfg,
          fp16_cross_entropy = cfg_fp16_cross_entropy cfg,
          add_encoder = cfg_add_encoder cfg,
          add_decoder = cfg_add_decoder cfg,
          position_embedding_type = cfg_position_embedding_type cfg,
          share_token_embeddings = cfg_share_token_embeddings cfg,
          share_decoder_tokens_head_embeddings = cfg_share_decoder_tokens_head_embeddings cfg,
          relative_position_bias_self_attention_only =
            cfg_relative_position_bias_self_attention_only cfg,
          encoder_embedding = ee,
          encoder_relative_position_embedding = er,
          decoder_embedding = de,
          decoder_relative_position_embedding = dr,
          decoder_cross_attention_relative_position_embedding = dx,
          enc_dec_model = new_coordinator en dn (cfg_hidden_steps cfg),
          word_embeddings = w,
          tokens_head = h\<rparr>"
    by (rule init_Inr)
  have ee: "ee = None" and st1: "st1 = st"
    using init_encoder_result(2,4)[OF e] assms(5) by auto
  obtain a where de: "de = Some a"
    and a: "init_decoder_embedding c cfg ee st = Inr (a, st')"
    using init_decoder_result(5)[OF d] assms(3,4) st1 by auto
  obtain x where x: "Embedding c cfg (next_addr st) = Inr x" "a = next_addr st"
    "next_addr st' = Suc (next_addr st)" "objs st' a = zero_parameters x"
    using init_decoder_embedding_new[OF a] ee assms(2) by auto
  have z: "\<And>idx. elems (word_embeddings_weight (zero_parameters x)) idx = 0"
    "\<And>t idx. position_embeddings_weight (zero_parameters x) = Some t \<Longrightarrow> elems t idx = 0"
    "\<And>t idx. tokentype_embeddings_weight (zero_parameters x) = Some t \<Longrightarrow> elems t idx = 0"
    by (auto simp: zero_parameters_def fill_zero_def)
  show ?thesis
    using ee de x z by (simp add: m)
qed

theorem unshared_stage_decoder_embedding_zero_witness:
  "init demo_collab demo_decoder_config demo_store =
     Inr (demo_decoder_module, demo_decoder_store) \<and>
   decoder_embedding demo_decoder_module = Some 0 \<and>
   elems (word_embeddings_weight (objs demo_decoder_store 0)) [3, 1] = 0 \<and>
   elems (word_embeddings_weight demo_table) [3, 1] = 5"
proof -
  have f: "cfg_share_token_embeddings demo_decoder_config" "cfg_add_decoder demo_decoder_config"
    "cfg_pre_process demo_decoder_config" "\<not> cfg_add_encoder demo_decoder_config"
    by (simp_all add: demo_decoder_config_def demo_config_def)
  show ?thesis
    using unshared_stage_decoder_embedding_zero [OF demo_decoder_init f]
    by (simp add: demo_decoder_init demo_decoder_module_def demo_module_def
        demo_decoder_store_def demo_table_def demo_weight_def zero_parameters_def fill_zero_def)
qed

subsection \<open>Traces of the forward pass\<close>

lemma andthen_trace:
  assumes "list_all P (fst r)" and "\<And>x. snd r = Inr x \<Longrightarrow> list_all P (fst (f x))"
  shows "list_all P (fst (andthen r f))"
proof (cases r)
  case (Pair tr v)
  show ?thesis
  proof (cases v)
    case (Inl e)
    with Pair assms(1) show ?thesis by (simp add: andthen_def)
  next
    case (Inr x)
    with Pair assms show ?thesis
      by (cases "f x") (simp add: andthen_def)
  qed
qed

lemma trace_simps [simp]:
  "fst (ret x) = []" "fst (raise e) = []" "fst (lift r) = []" "fst (call ev r) = [ev]"
  by (simp_all add: ret_def raise_def lift_def call_def)

lemma getattr_trace [simp]: "fst (getattr name x) = []"
  by (cases x) (simp_all add: getattr_def)

lemma resolve_enc_input_trace:
  "list_all is_enc_input_event (fst (resolve_enc_input c m st a))"
  unfolding resolve_enc_input_def
  by (auto intro!: andthen_trace)

lemma is_enc_input_event_not_decoder: "is_enc_input_event ev \<Longrightarrow> \<not> is_decoder_event ev"
  by (cases ev) simp_all

lemma is_enc_input_event_not_encode: "is_enc_input_event ev \<Longrightarrow> ev \<noteq> Call_encode"
  by (cases ev) simp_all

lemma resolve_enc_input_enc_output [simp]:
  "resolve_enc_input c m st (a\<lparr>enc_output := e\<rparr>) = resolve_enc_input c m st a"
  by (simp add: resolve_enc_input_def)

lemma forward_hidden_only:
  "output_enc_hidden_only a \<Longrightarrow>
   forward c m st a = andthen (resolve_enc_input c m st a) (\<lambda>(ei, eb). encode_only c m a ei)"
  by (simp add: forward_def)

subsection \<open>Encode-only calls\<close>

text \<open>
  Claim C2, as amended. In a forward call with \<^verbatim>\<open>output_enc_hidden_only\<close> set, no
  decoder work is done, whatever the call's outcome: the trace holds no call of the decoder's
  position ids, embedding or relative position embeddings, of the coordinator's forward
  pass, of the head or of the cross-entropy. When the encoder's input is resolved without
  an error: if the stage has an encoder and no \<^verbatim>\<open>enc_output\<close> was supplied, the call
  returns what the coordinator's \<^verbatim>\<open>encode\<close> makes of that input; otherwise it reads the
  coordinator's stored encoder hidden state, returns it if one has been stored, and raises
  \<^verbatim>\<open>AttributeError\<close> if none has.
\<close>

theorem encode_only_short_circuit:
  assumes "output_enc_hidden_only a"
  shows "list_all (\<lambda>ev. \<not> is_decoder_event ev) (fst (forward c m st a)) \<and>
         (\<forall>tr ei eb. resolve_enc_input c m st a = (tr, Inr (ei, eb)) \<longrightarrow>
            (enc_output a = None \<and> encoder (enc_dec_model m) \<noteq> None \<longrightarrow>
               forward c m st a =
                 (tr @ [Call_encode], encode c (enc_dec_model m) ei (enc_attn_mask a))) \<and>
            (\<not> (enc_output a = None \<and> encoder (enc_dec_model m) \<noteq> None) \<longrightarrow>
               (\<forall>v. encoder_hidden_state (enc_dec_model m) = Some v \<longrightarrow>
                  forward c m st a = (tr, Inr v)) \<and>
               (encoder_hidden_state (enc_dec_model m) = None \<longrightarrow>
                  forward c m st a = (tr, Inl (AttributeError ''encoder_hidden_state'')))))"
proof (intro conjI allI impI)
  have "list_all (\<lambda>ev. \<not> is_decoder_event ev) (fst (resolve_enc_input c m st a))"
    using resolve_enc_input_trace [of c m st a]
    by (simp add: list_all_iff is_enc_input_event_not_decoder)
  then show "list_all (\<lambda>ev. \<not> is_decoder_event ev) (fst (forward c m st a))"
    unfolding forward_hidden_only [OF assms]
    by (rule andthen_trace) (auto simp: encode_only_def)
next
  fix tr ei eb
  assume r: "resolve_enc_input c m st a = (tr, Inr (ei, eb))"
    and "enc_output a = None \<and> encoder (enc_dec_model m) \<noteq> None"
  then show "forward c m st a =
          (tr @ [Call_encode], encode c (enc_dec_model m) ei (enc_attn_mask a))"
    unfolding forward_hidden_only [OF assms]
    by (simp add: andthen_def encode_only_def call_def)
next
  fix tr ei eb v
  assume r: "resolve_enc_input c m st a = (tr, Inr (ei, eb))"
    and "\<not> (enc_output a = None \<and> encoder (enc_dec_model m) \<noteq> None)"
    and "encoder_hidden_state (enc_dec_model m) = Some v"
  then show "forward c m st a = (tr, Inr v)"
    unfolding forward_hidden_only [OF assms]
    by (auto simp: andthen_def encode_only_def getattr_def ret_def)
next
  fix tr ei eb
  assume r: "resolve_enc_input c m st a = (tr, Inr (ei, eb))"
    and "\<not> (enc_output a = None \<and> encoder (enc_dec_model m) \<noteq> None)"
    and "encoder_hidden_state (enc_dec_model m) = None"
  then show "forward c m st a = (tr, Inl (AttributeError ''encoder_hidden_state''))"
    unfolding forward_hidden_only [OF assms]
    by (auto simp: andthen_def encode_only_def getattr_def raise_def)
qed

text \<open>
  Claim C10, as amended. In a forward call with \<^verbatim>\<open>output_enc_hidden_only\<close> set that
  supplies an \<^verbatim>\<open>enc_output\<close>, or on a stage without an encoder, the supplied tensor is
  discarded and \<^verbatim>\<open>encode\<close> is not called: once the encoder's input is resolved, the call
  reads the coordinator's stored encoder hidden state. It returns that state if one has
  been stored and raises \<^verbatim>\<open>AttributeError\<close> if none has; either way the outcome is the
  same whatever tensor is supplied as \<^verbatim>\<open>enc_output\<close>.
\<close>

theorem supplied_enc_output_discarded:
  assumes "output_enc_hidden_only a"
    and "enc_output a = Some t \<or> encoder (enc_dec_model m) = None"
    and "resolve_enc_input c m st a = (tr, Inr x)"
  shows "(\<forall>v. encoder_hidden_state (enc_dec_model m) = Some v \<longrightarrow>
            forward c m st a = (tr, Inr v)) \<and>
         (encoder_hidden_state (enc_dec_model m) = None \<longrightarrow>
            forward c m st a = (tr, Inl (AttributeError ''encoder_hidden_state''))) \<and>
         list_all (\<lambda>ev. ev \<noteq> Call_encode) (fst (forward c m st a)) \<and>
         (\<forall>t'. forward c m st (a\<lparr>enc_output := Some t'\<rparr>) = forward c m st a)"
proof -
  obtain ei eb where x: "x = (ei, eb)" by (cases x)
  have f: "\<And>b. output_enc_hidden_only b \<Longrightarrow>
      enc_output b \<noteq> None \<or> encoder (enc_dec_model m) = None \<Longrightarrow>
      resolve_enc_input c m st b = (tr, Inr (ei, eb)) \<Longrightarrow>
      forward c m st b =
        (tr, attr ''encoder_hidden_state'' (encoder_hidden_state (enc_dec_model m)))"
    by (cases "encoder_hidden_state (enc_dec_model m)")
      (auto simp: forward_hidden_only andthen_def encode_only_def getattr_def ret_def
        raise_def attr_def)
  have 1: "forward c m st a =
             (tr, attr ''encoder_hidden_state'' (encoder_hidden_state (enc_dec_model m)))"
    using f [of a] assms x by auto
  have 2: "list_all (\<lambda>ev. ev \<noteq> Call_encode) tr"
    using resolve_enc_input_trace [of c m st a] assms(3)
    by (simp add: list_all_iff is_enc_input_event_not_encode)
  have 3: "forward c m st (a\<lparr>enc_output := Some t'\<rparr>) = forward c m st a" for t'
    using f [of "a\<lparr>enc_output := Some t'\<rparr>"] assms x 1 by simp
  show ?thesis using 1 2 3 by (simp add: attr_def)
qed

text \<open>On a stage with an encoder, \<^verbatim>\<open>set_input_tensor\<close> stores no encoder hidden state.\<close>

lemma set_input_tensor_encoder_stage:
  assumes "add_encoder m" and "set_input_tensor m v = Inr m'"
  shows "encoder_hidden_state (enc_dec_model m') = encoder_hidden_state (enc_dec_model m)"
proof -
  define xs where "xs = (case v of PyList ys \<Rightarrow> ys | _ \<Rightarrow> [v])"
  have "encoder_set_input_tensor m (xs ! 0) = Inr m'"
    using assms unfolding set_input_tensor_def xs_def Let_def
    by (simp split: if_splits)
  then show ?thesis
    by (cases "encoder (enc_dec_model m)") (auto simp: encoder_set_input_tensor_def)
qed

text \<open>The encoder's input on the concrete instance.\<close>

lemma demo_embedding_forward_ids:
  "demo_embedding_forward demo_table (Some demo_ids) p tt = Inr demo_embedded"
proof -
  have s: "shape demo_ids = [2, 5]" "shape (word_embeddings_weight demo_table) = [4, 2]"
    by (simp_all add: demo_ids_def demo_table_def demo_weight_def)
  show ?thesis by (simp add: demo_embedding_forward_def s demo_embedded_def)
qed

lemma demo_resolve_enc_input:
  assumes "pre_process m" and "add_encoder m"
    and "position_embedding_type m = ''learned_absolute''" and "encoder_embedding m = Some 0"
    and "enc_input a = None" and "enc_input_ids a = Some demo_ids"
  shows "resolve_enc_input (demo_collab_of dt) m demo_store' a =
           ([Call_build_position_ids_enc, Call_encoder_embedding 0],
            Inr (Some demo_embedded, None))"
proof -
  have e: "embedding_forward (demo_collab_of dt) = demo_embedding_forward"
    and b: "\<exists>p. build_position_ids (demo_collab_of dt) (Some demo_ids) = Inr p"
    by (simp_all add: demo_collab_of_def)
  from b obtain p where p: "build_position_ids (demo_collab_of dt) (Some demo_ids) = Inr p" ..
  have o: "objs demo_store' 0 = demo_table" by (simp add: demo_store'_def)
  show ?thesis
    unfolding resolve_enc_input_def
    by (simp add: assms p e o demo_embedding_forward_ids andthen_def call_def ret_def
        getattr_def)
qed

lemma demo_module_simps:
  "pre_process demo_module" "add_encoder demo_module"
  "position_embedding_type demo_module = ''learned_absolute''"
  "encoder_embedding demo_module = Some 0"
  "encoder (enc_dec_model demo_module) = Some demo_net"
  "encoder_hidden_state (enc_dec_model demo_module) = None"
  by (simp_all add: demo_module_def)

lemma demo_hidden_only_args_simps:
  "output_enc_hidden_only demo_hidden_only_args" "enc_input demo_hidden_only_args = None"
  "enc_input_ids demo_hidden_only_args = Some demo_ids"
  "enc_output demo_hidden_only_args = Some demo_supplied"
  by (simp_all add: demo_hidden_only_args_def demo_args_def)

lemma demo_encode_embedded:
  "encode demo_collab (enc_dec_model demo_module) (Some demo_embedded) am =
     Inr (PyTensor demo_embedded)"
  by (simp add: demo_collab_def demo_collab_of_def demo_encode_def demo_module_def)

text \<open>
  The decoder-only stage: \<^verbatim>\<open>set_input_tensor\<close> stores a hidden state, and the encoder's
  input stays \<^verbatim>\<open>None\<close>.
\<close>

lemma demo_decoder_fed:
  "set_input_tensor demo_decoder_module (PyList [PyTensor demo_embedded]) =
     Inr demo_fed_decoder_module"
  by (simp add: set_input_tensor_def decoder_set_input_tensor_def set_encoder_hidden_state_def
      net_set_input_tensor_def demo_fed_decoder_module_def demo_decoder_module_def
      demo_module_def demo_net_def)

lemma demo_fed_decoder_resolve:
  "resolve_enc_input demo_collab demo_fed_decoder_module demo_decoder_store
     demo_hidden_only_args = ([], Inr (None, None))"
  by (simp add: resolve_enc_input_def demo_hidden_only_args_simps ret_def
      demo_fed_decoder_module_def demo_decoder_module_def demo_module_def)

theorem encode_only_short_circuit_witness:
  "output_enc_hidden_only demo_encode_args \<and>
   forward demo_collab demo_module demo_store' demo_encode_args =
     ([Call_build_position_ids_enc, Call_encoder_embedding 0, Call_encode],
      Inr (PyTensor demo_embedded)) \<and>
   output_enc_hidden_only demo_hidden_only_args \<and>
   set_input_tensor demo_decoder_module (PyList [PyTensor demo_embedded]) =
     Inr demo_fed_decoder_module \<and>
   forward demo_collab demo_fed_decoder_module demo_decoder_store demo_hidden_only_args =
     ([], Inr (PyTensor demo_embedded))"
proof -
  have a: "output_enc_hidden_only demo_encode_args" "enc_input demo_encode_args = None"
    "enc_input_ids demo_encode_args = Some demo_ids" "enc_output demo_encode_args = None"
    by (simp_all add: demo_encode_args_def demo_args_def)
  note m = demo_module_simps
  note r = demo_resolve_enc_input [OF m(1-4) a(2,3), of Float32, folded demo_collab_def]
  have 1: "forward demo_collab demo_module demo_store' demo_encode_args =
     ([Call_build_position_ids_enc, Call_encoder_embedding 0, Call_encode],
      Inr (PyTensor demo_embedded))"
    using encode_only_short_circuit [OF a(1), of demo_collab demo_module demo_store'] r a(4)
      m(5) demo_encode_embedded
    by simp
  note b = demo_hidden_only_args_simps
  have s: "encoder_hidden_state (enc_dec_model demo_fed_decoder_module) =
             Some (PyTensor demo_embedded)"
    "encoder (enc_dec_model demo_fed_decoder_module) = None"
    by (simp_all add: demo_fed_decoder_module_def)
  have 2: "forward demo_collab demo_fed_decoder_module demo_decoder_store
             demo_hidden_only_args = ([], Inr (PyTensor demo_embedded))"
    using encode_only_short_circuit [OF b(1), of demo_collab demo_fed_decoder_module
        demo_decoder_store] demo_fed_decoder_resolve s
    by simp
  show ?thesis using 1 2 a(1) b(1) demo_decoder_fed by simp
qed

text \<open>
  Claim C2 as stated fails: on a stage that has its encoder, a call that supplies an
  \<^verbatim>\<open>enc_output\<close> does not get the hidden state \<^verbatim>\<open>encode\<close> computes from the resolved
  encoder input. It reads the stored one, and as none is stored it raises.
\<close>

theorem encode_only_computed_counterexample:
  "output_enc_hidden_only demo_hidden_only_args \<and>
   encoder (enc_dec_model demo_module) = Some demo_net \<and>
   resolve_enc_input demo_collab demo_module demo_store' demo_hidden_only_args =
     ([Call_build_position_ids_enc, Call_encoder_embedding 0], Inr (Some demo_embedded, None)) \<and>
   encode demo_collab (enc_dec_model demo_module) (Some demo_embedded)
     (enc_attn_mask demo_hidden_only_args) = Inr (PyTensor demo_embedded) \<and>
   forward demo_collab demo_module demo_store' demo_hidden_only_args =
     ([Call_build_position_ids_enc, Call_encoder_embedding 0],
      Inl (AttributeError ''encoder_hidden_state''))"
proof -
  note a = demo_hidden_only_args_simps
  note m = demo_module_simps
  note r = demo_resolve_enc_input [OF m(1-4) a(2,3), of Float32, folded demo_collab_def]
  have "forward demo_collab demo_module demo_store' demo_hidden_only_args =
     ([Call_build_position_ids_enc, Call_encoder_embedding 0],
      Inl (AttributeError ''encoder_hidden_state''))"
    by (simp add: forward_hidden_only [OF a(1)] r a m andthen_def encode_only_def getattr_def
        raise_def)
  then show ?thesis
    using a(1) m(5) demo_encode_embedded r by simp
qed

theorem supplied_enc_output_discarded_witness:
  "output_enc_hidden_only demo_hidden_only_args \<and>
   enc_output demo_hidden_only_args = Some demo_supplied \<and>
   set_input_tensor demo_decoder_module (PyList [PyTensor demo_embedded]) =
     Inr demo_fed_decoder_module \<and>
   encoder_hidden_state (enc_dec_model demo_fed_decoder_module) =
     Some (PyTensor demo_embedded) \<and>
   forward demo_collab demo_fed_decoder_module demo_decoder_store demo_hidden_only_args =
     ([], Inr (PyTensor demo_embedded))"
proof -
  note a = demo_hidden_only_args_simps
  have d: "enc_output demo_hidden_only_args = Some demo_supplied \<or>
           encoder (enc_dec_model demo_fed_decoder_module) = None"
    using a(4) by simp
  have s: "encoder_hidden_state (enc_dec_model demo_fed_decoder_module) =
             Some (PyTensor demo_embedded)"
    by (simp add: demo_fed_decoder_module_def)
  show ?thesis
    using supplied_enc_output_discarded [OF a(1) d demo_fed_decoder_resolve] a s
      demo_decoder_fed
    by simp
qed

text \<open>
  Claim C10 as stated fails where no hidden state has been stored, which is so on every
  stage with an encoder: there the call that supplies an \<^verbatim>\<open>enc_output\<close> returns no stored
  state, it raises. Handing the stage its input first changes nothing.
\<close>

theorem stored_state_returned_counterexample:
  "add_encoder demo_module \<and>
   enc_output demo_hidden_only_args = Some demo_supplied \<and>
   output_enc_hidden_only demo_hidden_only_args \<and>
   encoder_hidden_state (enc_dec_model demo_module) = None \<and>
   forward demo_collab demo_module demo_store' demo_hidden_only_args =
     ([Call_build_position_ids_enc, Call_encoder_embedding 0],
      Inl (AttributeError ''encoder_hidden_state'')) \<and>
   set_input_tensor demo_module (PyList [PyTensor demo_embedded]) =
     Inr (demo_module\<lparr>enc_dec_model :=
            (enc_dec_model demo_module)
              \<lparr>encoder := Some (demo_net\<lparr>input_tensor := PyTensor demo_embedded\<rparr>)\<rparr>\<rparr>) \<and>
   forward demo_collab
     (demo_module\<lparr>enc_dec_model :=
        (enc_dec_model demo_module)
          \<lparr>encoder := Some (demo_net\<lparr>input_tensor := PyTensor demo_embedded\<rparr>)\<rparr>\<rparr>)
     demo_store' demo_hidden_only_args =
     ([Call_build_position_ids_enc, Call_encoder_embedding 0],
      Inl (AttributeError ''encoder_hidden_state''))"
proof -
  note a = demo_hidden_only_args_simps
  note m = demo_module_simps
  define m' where "m' = demo_module\<lparr>enc_dec_model :=
            (enc_dec_model demo_module)
              \<lparr>encoder := Some (demo_net\<lparr>input_tensor := PyTensor demo_embedded\<rparr>)\<rparr>\<rparr>"
  have m': "pre_process m'" "add_encoder m'"
    "position_embedding_type m' = ''learned_absolute''" "encoder_embedding m' = Some 0"
    "encoder (enc_dec_model m') \<noteq> None" "encoder_hidden_state (enc_dec_model m') = None"
    by (simp_all add: m'_def demo_module_def)
  have f: "forward demo_collab mm demo_store' demo_hidden_only_args =
     ([Call_build_position_ids_enc, Call_encoder_embedding 0],
      Inl (AttributeError ''encoder_hidden_state''))"
    if "pre_process mm" "add_encoder mm" "position_embedding_type mm = ''learned_absolute''"
      "encoder_embedding mm = Some 0" "encoder_hidden_state (enc_dec_model mm) = None" for mm
    using that
    by (simp add: forward_hidden_only [OF a(1)]
        demo_resolve_enc_input [OF that(1-4) a(2,3), of Float32, folded demo_collab_def]
        a andthen_def encode_only_def getattr_def raise_def)
  have s: "set_input_tensor demo_module (PyList [PyTensor demo_embedded]) = Inr m'"
    by (simp add: set_input_tensor_def encoder_set_input_tensor_def net_set_input_tensor_def
        m'_def demo_module_def)
  show ?thesis
    using f [OF m(1-4,6)] f [OF m'(1-4,6)] s a m(2,6)
    unfolding m'_def by simp
qed

subsection \<open>Checkpoints\<close>

text \<open>
  Claim C8 does not hold of the code. Whenever saving succeeds, restoring the saved mapping
  fails at line 510: the method \<^verbatim>\<open>encoder_embeddingload_state_dict\<close> does not exist on an
  embedding table, so no section is written back.
\<close>

theorem load_after_save_fails:
  assumes "state_dict_for_save_checkpoint c m st = Inr sd"
  shows "load_state_dict c m st sd strict =
           Inl (AttributeError ''encoder_embeddingload_state_dict'')"
proof -
  from assms obtain ea where ea: "encoder_embedding m = Some ea"
    by (cases "encoder_embedding m")
      (simp_all add: state_dict_for_save_checkpoint_def attr_def bindE_def)
  have g: "embedding_getattr ''encoder_embeddingload_state_dict'' =
             Inl (AttributeError ''encoder_embeddingload_state_dict'')"
    by (simp add: embedding_getattr_def)
  show ?thesis
    by (simp add: load_state_dict_def load_embedding_def attr_def bindE_def ea g)
qed

theorem load_after_save_fails_witness:
  "\<not> isl (state_dict_for_save_checkpoint demo_collab demo_module demo_store') \<and>
   load_state_dict demo_collab demo_module demo_store'
     (projr (state_dict_for_save_checkpoint demo_collab demo_module demo_store')) True =
     Inl (AttributeError ''encoder_embeddingload_state_dict'')"
proof -
  have "\<exists>sd. state_dict_for_save_checkpoint demo_collab demo_module demo_store' = Inr sd"
    by (simp add: state_dict_for_save_checkpoint_def attr_def bindE_def demo_module_def)
  then obtain sd where
    sd: "state_dict_for_save_checkpoint demo_collab demo_module demo_store' = Inr sd" ..
  show ?thesis
    using load_after_save_fails [OF sd, of True] sd by simp
qed

subsection \<open>The loss\<close>

lemma is_enc_input_event_not_cross_entropy:
  "is_enc_input_event ev \<Longrightarrow> \<not> is_cross_entropy_event ev"
  by (cases ev) simp_all

lemma resolve_dec_input_trace:
  "list_all (\<lambda>ev. \<not> is_cross_entropy_event ev) (fst (resolve_dec_input c m st a))"
  unfolding resolve_dec_input_def
  by (auto intro!: andthen_trace)

lemma run_enc_dec_trace:
  "list_all (\<lambda>ev. \<not> is_cross_entropy_event ev) (fst (run_enc_dec c m st a ei eb))"
  unfolding run_enc_dec_def Let_def
  by (auto intro!: andthen_trace resolve_dec_input_trace split: option.splits)

lemma token_logits_trace:
  "list_all (\<lambda>ev. \<not> is_cross_entropy_event ev) (fst (token_logits c m st out))"
  unfolding token_logits_def
  by (auto intro!: andthen_trace split: head.splits)

lemma forward_labels:
  assumes "\<not> output_enc_hidden_only a" and "post_process m" and "add_decoder m"
    and "labels a = Some lab"
    and "resolve_enc_input c m st a = (tr1, Inr (ei, eb))"
    and "run_enc_dec c m st a ei eb = (tr2, Inr out)"
    and "token_logits c m st out = (tr3, Inr logits)"
  shows "forward c m st a =
           (tr1 @ tr2 @ tr3 @ fst (tokens_loss c m logits lab), snd (tokens_loss c m logits lab))"
  using assms
  by (cases "tokens_loss c m logits lab") (simp add: forward_def finish_def andthen_def)

lemma tokens_loss_eq:
  assumes "transpose01 lab = Inr lab'"
  shows "tokens_loss c m logits lab =
     (if fp16_cross_entropy m then
        if dtype logits = Half then
          ([Call_vocab_parallel_cross_entropy Half],
           bindE (vocab_parallel_cross_entropy c logits lab') (\<lambda>loss.
           bindE (transpose01 loss) (\<lambda>l. Inr (PyTensor l))))
        else ([], Inl AssertionError)
      else
        ([Call_vocab_parallel_cross_entropy Float32],
         bindE (vocab_parallel_cross_entropy c (to_float logits) lab') (\<lambda>loss.
         bindE (transpose01 loss) (\<lambda>l. Inr (PyTensor l)))))"
  using assms
  by (auto simp: tokens_loss_def andthen_def lift_def call_def raise_def ret_def bindE_def
      to_float_def split: sum.splits)

text \<open>
  Claim C7, as amended. On the labels path of \<^verbatim>\<open>forward\<close> (not encode-only, decoder
  present, post-process, labels supplied, logits computed), the cross-entropy is called at
  most once, after everything else. With \<^verbatim>\<open>fp16_cross_entropy\<close> unset it is given the
  logits cast to float32, whatever their dtype: half logits are no failure there. With
  \<^verbatim>\<open>fp16_cross_entropy\<close> set it is given the logits as they are if they are half; if they
  are not, the call fails on the \<^verbatim>\<open>assert\<close> with \<^verbatim>\<open>AssertionError\<close> and the
  cross-entropy is not called at all. That is the only precision failure.
\<close>

theorem cross_entropy_precision:
  assumes "\<not> output_enc_hidden_only a" and "post_process m" and "add_decoder m"
    and "labels a = Some lab"
    and "resolve_enc_input c m st a = (tr1, Inr (ei, eb))"
    and "run_enc_dec c m st a ei eb = (tr2, Inr out)"
    and "token_logits c m st out = (tr3, Inr logits)"
    and "transpose01 lab = Inr lab'"
  shows "list_all (\<lambda>ev. \<not> is_cross_entropy_event ev) (tr1 @ tr2 @ tr3) \<and>
         (fp16_cross_entropy m \<and> dtype logits \<noteq> Half \<longrightarrow>
            forward c m st a = (tr1 @ tr2 @ tr3, Inl AssertionError)) \<and>
         (fp16_cross_entropy m \<and> dtype logits = Half \<longrightarrow>
            forward c m st a =
              (tr1 @ tr2 @ tr3 @ [Call_vocab_parallel_cross_entropy Half],
               bindE (vocab_parallel_cross_entropy c logits lab') (\<lambda>loss.
               bindE (transpose01 loss) (\<lambda>l. Inr (PyTensor l))))) \<and>
         (\<not> fp16_cross_entropy m \<longrightarrow>
            dtype (to_float logits) = Float32 \<and>
            forward c m st a =
              (tr1 @ tr2 @ tr3 @ [Call_vocab_parallel_cross_entropy Float32],
               bindE (vocab_parallel_cross_entropy c (to_float logits) lab') (\<lambda>loss.
               bindE (transpose01 loss) (\<lambda>l. Inr (PyTensor l)))))"
proof -
  have 1: "list_all (\<lambda>ev. \<not> is_cross_entropy_event ev) tr1"
    using resolve_enc_input_trace [of c m st a] assms(5)
    by (simp add: list_all_iff is_enc_input_event_not_cross_entropy)
  have 2: "list_all (\<lambda>ev. \<not> is_cross_entropy_event ev) tr2"
    using run_enc_dec_trace [of c m st a ei eb] assms(6) by simp
  have 3: "list_all (\<lambda>ev. \<not> is_cross_entropy_event ev) tr3"
    using token_logits_trace [of c m st out] assms(7) by simp
  show ?thesis
    using 1 2 3
    by (simp add: forward_labels [OF assms(1-7)] tokens_loss_eq [OF assms(8)] to_float_def)
qed

subsection \<open>The collaborators' contract\<close>

text \<open>The flags of a constructed module are those of its configuration.\<close>

lemma init_flags:
  assumes "init c cfg st = Inr (m, st')"
  shows "pre_process m = cfg_pre_process cfg" and "post_process m = cfg_post_process cfg"
    and "add_encoder m = cfg_add_encoder cfg" and "add_decoder m = cfg_add_decoder cfg"
    and "fp16_cross_entropy m = cfg_fp16_cross_entropy cfg"
    and "position_embedding_type m = cfg_position_embedding_type cfg"
    and "share_decoder_tokens_head_embeddings m = cfg_share_decoder_tokens_head_embeddings cfg"
proof -
  from assms obtain kv ee er en st1 de dr dx dn w h where
    m: "m = \<lparr>parallel_output = cfg_parallel_output cfg,
          pre_process = cfg_pre_process cfg,
          post_process = cfg_post_process cfg,
          fp16_cross_entropy = cfg_fp16_cross_entropy cfg,
          add_encoder = cfg_add_encoder cfg,
          add_decoder = cfg_add_decoder cfg,
          position_embedding_type = cfg_position_embedding_type cfg,
          share_token_embeddings = cfg_share_token_embeddings cfg,
          share_decoder_tokens_head_embeddings = cfg_share_decoder_tokens_head_embeddings cfg,
          relative_position_bias_self_attention_only =
            cfg_relative_position_bias_self_attention_only cfg,
          encoder_embedding = ee,
          encoder_relative_position_embedding = er,
          decoder_embedding = de,
          decoder_relative_position_embedding = dr,
          decoder_cross_attention_relative_position_embedding = dx,
          enc_dec_model = new_coordinator en dn (cfg_hidden_steps cfg),
          word_embeddings = w,
          tokens_head = h\<rparr>"
    by (rule init_Inr)
  show "pre_process m = cfg_pre_process cfg" and "post_process m = cfg_post_process cfg"
    and "add_encoder m = cfg_add_encoder cfg" and "add_decoder m = cfg_add_decoder cfg"
    and "fp16_cross_entropy m = cfg_fp16_cross_entropy cfg"
    and "position_embedding_type m = cfg_position_embedding_type cfg"
    and "share_decoder_tokens_head_embeddings m = cfg_share_decoder_tokens_head_embeddings cfg"
    by (simp_all add: m)
qed

text \<open>The parts of the contract.\<close>

lemma collab_shapes_Embedding:
  assumes "collab_shapes c" and "Embedding c cfg a = Inr e"
  shows "table_shape e (nat (cfg_vocab_size cfg)) (nat (cfg_hidden_size cfg))
           (nat (cfg_max_position_embeddings cfg))"
    and "cfg_position_embedding_type cfg = ''relative'' \<Longrightarrow> position_embeddings_weight e = None"
proof -
  from assms(1) have "\<forall>cfg a e. Embedding c cfg a = Inr e \<longrightarrow>
         table_shape e (nat (cfg_vocab_size cfg)) (nat (cfg_hidden_size cfg))
           (nat (cfg_max_position_embeddings cfg)) \<and>
         (cfg_position_embedding_type cfg = ''relative'' \<longrightarrow>
            position_embeddings_weight e = None)"
    unfolding collab_shapes_def by (elim conjE)
  with assms(2) show "table_shape e (nat (cfg_vocab_size cfg)) (nat (cfg_hidden_size cfg))
           (nat (cfg_max_position_embeddings cfg))"
    and "cfg_position_embedding_type cfg = ''relative'' \<Longrightarrow> position_embeddings_weight e = None"
    by blast+
qed

lemma collab_shapes_ColumnParallelLinear:
  assumes "collab_shapes c" and "new_ColumnParallelLinear c cfg = Inr w"
  shows "shape w = [nat (cfg_vocab_size cfg), nat (cfg_hidden_size cfg)]"
proof -
  from assms(1) have "\<forall>cfg w. new_ColumnParallelLinear c cfg = Inr w \<longrightarrow>
         shape w = [nat (cfg_vocab_size cfg), nat (cfg_hidden_size cfg)]"
    unfolding collab_shapes_def by (elim conjE)
  with assms(2) show ?thesis by blast
qed

lemma collab_shapes_word_embeddings_weight:
  assumes "collab_shapes c" and "pre_process m" and "encoder_embedding m = Some a"
  shows "get_word_embeddings_weight c m st = Inr (word_embeddings_weight (objs st a))"
proof -
  from assms(1) have "\<forall>m st a. pre_process m \<and> encoder_embedding m = Some a \<longrightarrow>
         get_word_embeddings_weight c m st = Inr (word_embeddings_weight (objs st a))"
    unfolding collab_shapes_def by (elim conjE)
  with assms(2,3) show ?thesis by blast
qed

lemma collab_shapes_build_position_ids:
  assumes "collab_shapes c" and "shape t = [b, s]"
  shows "\<exists>p. build_position_ids c (Some t) = Inr p \<and> shape p = [b, s] \<and> ids_in_range p s"
proof -
  from assms(1) have "\<forall>t b s. shape t = [b, s] \<longrightarrow>
         (\<exists>p. build_position_ids c (Some t) = Inr p \<and> shape p = [b, s] \<and>
              ids_in_range p s)"
    unfolding collab_shapes_def by (elim conjE)
  with assms(2) show ?thesis by blast
qed

lemma collab_shapes_rpe_forward:
  assumes "collab_shapes c"
  shows "\<exists>x. rpe_forward c r q k = Inr x"
proof -
  from assms have "\<forall>r q k. \<exists>x. rpe_forward c r q k = Inr x"
    unfolding collab_shapes_def by (elim conjE)
  then show ?thesis by blast
qed

lemma collab_shapes_embedding_forward_no_positions:
  assumes "collab_shapes c" and "shape ids = [b, s]" and "ids_in_range ids v"
    and "table_shape e v h n" and "position_embeddings_weight e = None"
  shows "\<exists>x. embedding_forward c e (Some ids) pos None = Inr x \<and> shape x = [s, b, h]"
proof -
  from assms(1) have "\<forall>e ids pos b s v h n.
         shape ids = [b, s] \<and> ids_in_range ids v \<and> table_shape e v h n \<and>
         position_embeddings_weight e = None \<longrightarrow>
         (\<exists>x. embedding_forward c e (Some ids) pos None = Inr x \<and> shape x = [s, b, h])"
    unfolding collab_shapes_def by (elim conjE)
  with assms(2-5) show ?thesis by blast
qed

lemma collab_shapes_embedding_forward_positions:
  assumes "collab_shapes c" and "shape ids = [b, s]" and "ids_in_range ids v"
    and "table_shape e v h n" and "shape p = [b, s]" and "ids_in_range p n"
  shows "\<exists>x. embedding_forward c e (Some ids) (Some p) None = Inr x \<and> shape x = [s, b, h]"
proof -
  from assms(1) have "\<forall>e ids p b s v h n.
         shape ids = [b, s] \<and> ids_in_range ids v \<and> table_shape e v h n \<and>
         shape p = [b, s] \<and> ids_in_range p n \<longrightarrow>
         (\<exists>x. embedding_forward c e (Some ids) (Some p) None = Inr x \<and>
              shape x = [s, b, h])"
    unfolding collab_shapes_def by (elim conjE)
  with assms(2-6) show ?thesis by blast
qed

lemma collab_shapes_enc_dec_forward:
  assumes "collab_shapes c" and "encoder co \<noteq> None" and "decoder co \<noteq> None"
    and "ed_enc_input args = Some x" and "ed_enc_output args = None"
    and "ed_dec_input args = Some d"
  shows "\<exists>y z. enc_dec_forward c co args = Inr (PyTuple [PyTensor y, z]) \<and> shape y = shape d"
proof -
  from assms(1) have "\<forall>co args x d.
         encoder co \<noteq> None \<and> decoder co \<noteq> None \<and> ed_enc_input args = Some x \<and>
         ed_enc_output args = None \<and> ed_dec_input args = Some d \<longrightarrow>
         (\<exists>y z. enc_dec_forward c co args = Inr (PyTuple [PyTensor y, z]) \<and>
                 shape y = shape d)"
    unfolding collab_shapes_def by (elim conjE)
  with assms(2-6) show ?thesis by blast
qed

lemma collab_shapes_parallel_lm_logits:
  assumes "collab_shapes c" and "shape t = [s, b, h]" and "shape w = [v, h]"
    and "shape bi = [v]"
  shows "\<exists>l. parallel_lm_logits c (PyTensor t) w po bi as = Inr l \<and> shape l = [s, b, v]"
proof -
  from assms(1) have "\<forall>t w po bi as s b v h.
         shape t = [s, b, h] \<and> shape w = [v, h] \<and> shape bi = [v] \<longrightarrow>
         (\<exists>l. parallel_lm_logits c (PyTensor t) w po bi as = Inr l \<and> shape l = [s, b, v])"
    unfolding collab_shapes_def by (elim conjE)
  with assms(2-4) show ?thesis by blast
qed

lemma collab_shapes_column_parallel_linear:
  assumes "collab_shapes c" and "shape t = [s, b, h]" and "shape w = [v, h]"
  shows "\<exists>l z. column_parallel_linear_forward c w (PyTensor t) = Inr (l, z) \<and>
               shape l = [s, b, v]"
proof -
  from assms(1) have "\<forall>t w s b v h. shape t = [s, b, h] \<and> shape w = [v, h] \<longrightarrow>
         (\<exists>l z. column_parallel_linear_forward c w (PyTensor t) = Inr (l, z) \<and>
                 shape l = [s, b, v])"
    unfolding collab_shapes_def by (elim conjE)
  with assms(2,3) show ?thesis by blast
qed

lemma collab_shapes_cross_entropy:
  assumes "collab_shapes c" and "shape l = [s, b, v]" and "shape lab = [s, b]"
    and "ids_in_range lab v"
  shows "\<exists>x. vocab_parallel_cross_entropy c l lab = Inr x \<and> shape x = [s, b]"
proof -
  from assms(1) have "\<forall>l lab s b v.
         shape l = [s, b, v] \<and> shape lab = [s, b] \<and> ids_in_range lab v \<longrightarrow>
         (\<exists>x. vocab_parallel_cross_entropy c l lab = Inr x \<and> shape x = [s, b])"
    unfolding collab_shapes_def by (elim conjE)
  with assms(2-4) show ?thesis by blast
qed

text \<open>Token ids, tables and stores.\<close>

lemma ids_in_range_mono:
  assumes "ids_in_range p s" and "s \<le> n"
  shows "ids_in_range p n"
proof -
  from assms(1) obtain b' s' where
    p: "shape p = [b', s']" "\<forall>i<b'. \<forall>j<s'. \<exists>k<s. elems p [i, j] = real k"
    unfolding ids_in_range_def by blast
  have "\<forall>i<b'. \<forall>j<s'. \<exists>k<n. elems p [i, j] = real k"
  proof (intro allI impI)
    fix i j assume "i < b'" "j < s'"
    with p(2) obtain k where "k < s" "elems p [i, j] = real k" by blast
    with assms(2) show "\<exists>k<n. elems p [i, j] = real k" by auto
  qed
  with p(1) show ?thesis unfolding ids_in_range_def by blast
qed

lemma transpose01_3:
  assumes "shape t = [x, y, z]"
  shows "\<exists>r. transpose01 t = Inr r \<and> shape r = [y, x, z] \<and> dtype r = dtype t \<and>
             (\<forall>i j k. elems r [i, j, k] = elems t [j, i, k])"
  using assms by (simp add: transpose01_def)

lemma transpose01_2:
  assumes "shape t = [x, y]"
  shows "\<exists>r. transpose01 t = Inr r \<and> shape r = [y, x] \<and> dtype r = dtype t \<and>
             (\<forall>i j. elems r [i, j] = elems t [j, i])"
  using assms by (simp add: transpose01_def)

lemma ids_in_range_transpose01:
  assumes "ids_in_range lab v" and "transpose01 lab = Inr lab'"
  shows "ids_in_range lab' v"
proof -
  from assms(1) obtain b s where
    l: "shape lab = [b, s]" "\<forall>i<b. \<forall>j<s. \<exists>k<v. elems lab [i, j] = real k"
    unfolding ids_in_range_def by blast
  from transpose01_2 [OF l(1)] assms(2) have
    t: "shape lab' = [s, b]" "\<forall>i j. elems lab' [i, j] = elems lab [j, i]"
    by auto
  have "\<forall>i<s. \<forall>j<b. \<exists>k<v. elems lab' [i, j] = real k"
    using l(2) t(2) by simp
  with t(1) show ?thesis unfolding ids_in_range_def by blast
qed

lemma same_shapes_refl: "same_shapes st st"
  by (simp add: same_shapes_def)

lemma same_shapes_table:
  assumes "same_shapes st st'"
  shows "table_shape (objs st a) v h n = table_shape (objs st' a) v h n"
proof -
  from assms have
    w: "shape (word_embeddings_weight (objs st a)) = shape (word_embeddings_weight (objs st' a))"
    and p: "map_option shape (position_embeddings_weight (objs st a)) =
            map_option shape (position_embeddings_weight (objs st' a))"
    unfolding same_shapes_def by simp_all
  show ?thesis
    using p
    by (cases "position_embeddings_weight (objs st a)";
        cases "position_embeddings_weight (objs st' a)")
      (simp_all add: table_shape_def w)
qed

lemma same_shapes_no_positions:
  assumes "same_shapes st st'"
  shows "(position_embeddings_weight (objs st a) = None) =
         (position_embeddings_weight (objs st' a) = None)"
proof -
  from assms have "map_option shape (position_embeddings_weight (objs st a)) =
            map_option shape (position_embeddings_weight (objs st' a))"
    unfolding same_shapes_def by simp
  then show ?thesis
    by (cases "position_embeddings_weight (objs st a)";
        cases "position_embeddings_weight (objs st' a)") simp_all
qed

lemma table_shape_zero_parameters:
  "table_shape (zero_parameters e) v h n = table_shape e v h n"
  by (cases "position_embeddings_weight e")
    (simp_all add: table_shape_def zero_parameters_def fill_zero_def)

lemma no_positions_zero_parameters:
  "(position_embeddings_weight (zero_parameters e) = None) =
   (position_embeddings_weight e = None)"
  by (simp add: zero_parameters_def)

text \<open>The tables and the head that the constructor leaves.\<close>

lemma init_encoder_table:
  assumes "init_encoder c cfg kv st = Inr (ee, er, en, st')"
    and "cfg_add_encoder cfg" and "cfg_pre_process cfg"
  shows "\<exists>e. Embedding c cfg (next_addr st) = Inr e \<and> ee = Some (next_addr st) \<and>
             objs st' (next_addr st) = e \<and> next_addr st' = Suc (next_addr st)"
  using assms
  by (auto simp: init_encoder_def bindE_def alloc_def split: if_splits sum.splits prod.splits)

lemma init_decoder_embedding_frame:
  assumes "init_decoder_embedding c cfg ee st = Inr (a, st')" and "x \<noteq> next_addr st"
  shows "objs st' x = objs st x"
  using assms
  by (auto simp: init_decoder_embedding_def bindE_def alloc_def update_obj_def
      split: if_splits sum.splits prod.splits option.splits bool.splits)

lemma init_tables:
  assumes "init c cfg st0 = Inr (m, st1)"
    and "cfg_add_encoder cfg" and "cfg_add_decoder cfg" and "cfg_pre_process cfg"
    and "collab_shapes c"
  shows "\<exists>ea da. encoder_embedding m = Some ea \<and> decoder_embedding m = Some da \<and>
           table_shape (objs st1 ea) (nat (cfg_vocab_size cfg)) (nat (cfg_hidden_size cfg))
             (nat (cfg_max_position_embeddings cfg)) \<and>
           table_shape (objs st1 da) (nat (cfg_vocab_size cfg)) (nat (cfg_hidden_size cfg))
             (nat (cfg_max_position_embeddings cfg)) \<and>
           (cfg_position_embedding_type cfg = ''relative'' \<longrightarrow>
              position_embeddings_weight (objs st1 ea) = None \<and>
              position_embeddings_weight (objs st1 da) = None)"
proof -
  from assms(1) obtain kv ee er en sta de dr dx dn w h where
    e: "init_encoder c cfg kv st0 = Inr (ee, er, en, sta)" and
    d: "init_decoder c cfg kv ee sta = Inr (de, dr, dx, dn, st1)" and
    m: "m = \<lparr>parallel_output = cfg_parallel_output cfg,
          pre_process = cfg_pre_process cfg,
          post_process = cfg_post_process cfg,
          fp16_cross_entropy = cfg_fp16_cross_entropy cfg,
          add_encoder = cfg_add_encoder cfg,
          add_decoder = cfg_add_decoder cfg,
          position_embedding_type = cfg_position_embedding_type cfg,
          share_token_embeddings = cfg_share_token_embeddings cfg,
          share_decoder_tokens_head_embeddings = cfg_share_decoder_tokens_head_embeddings cfg,
          relative_position_bias_self_attention_only =
            cfg_relative_position_bias_self_attention_only cfg,
          encoder_embedding = ee,
          encoder_relative_position_embedding = er,
          decoder_embedding = de,
          decoder_relative_position_embedding = dr,
          decoder_cross_attention_relative_position_embedding = dx,
          enc_dec_model = new_coordinator en dn (cfg_hidden_steps cfg),
          word_embeddings = w,
          tokens_head = h\<rparr>"
    by (rule init_Inr)
  have me: "encoder_embedding m = ee" and md: "decoder_embedding m = de"
    by (simp_all add: m)
  define ea where "ea = next_addr st0"
  from init_encoder_table [OF e assms(2,4)] obtain x where
    x: "Embedding c cfg ea = Inr x" "ee = Some ea" "objs sta ea = x"
      "next_addr sta = Suc ea"
    unfolding ea_def by blast
  from init_decoder_result(5) [OF d] assms(3,4) obtain da where
    da: "de = Some da" "init_decoder_embedding c cfg ee sta = Inr (da, st1)"
    by blast
  have "ea \<noteq> next_addr sta" using x(4) by simp
  from init_decoder_embedding_frame [OF da(2) this] x(3)
  have fr: "objs st1 ea = x" by simp
  note tx = collab_shapes_Embedding [OF assms(5) x(1)]
  have dt: "table_shape (objs st1 da) (nat (cfg_vocab_size cfg)) (nat (cfg_hidden_size cfg))
             (nat (cfg_max_position_embeddings cfg)) \<and>
           (cfg_position_embedding_type cfg = ''relative'' \<longrightarrow>
              position_embeddings_weight (objs st1 da) = None)"
  proof (cases "cfg_share_token_embeddings cfg")
    case True
    from init_decoder_embedding_shared [OF True, of c ea sta] da(2) x(2)
    have "da = ea" by simp
    with fr tx show ?thesis by simp
  next
    case False
    from init_decoder_embedding_new [OF da(2)] False obtain y where
      y: "Embedding c cfg (next_addr sta) = Inr y" "objs st1 da = y"
      by auto
    from collab_shapes_Embedding [OF assms(5) y(1)] y(2) show ?thesis by simp
  qed
  show ?thesis
    using tx dt fr by (simp add: me md x(2) da(1))
qed

lemma init_head:
  assumes "init c cfg st0 = Inr (m, st1)"
    and "cfg_add_decoder cfg" and "cfg_pre_process cfg" and "cfg_post_process cfg"
    and "collab_shapes c"
    and "encoder_embedding m = Some ea"
    and "shape (word_embeddings_weight (objs st1 ea)) = [v, h]"
    and "v = nat (cfg_vocab_size cfg)" and "h = nat (cfg_hidden_size cfg)"
  shows "share_decoder_tokens_head_embeddings m \<Longrightarrow>
           \<exists>th. tokens_head m = Some (TokenLevelHead th) \<and> shape (bias th) = [v]"
    and "\<not> share_decoder_tokens_head_embeddings m \<Longrightarrow>
           \<exists>w. tokens_head m = Some (ColumnParallelLinear w) \<and> shape w = [v, h]"
proof -
  from assms(1) obtain kv ee er en sta de dr dx dn w hh where
    m: "m = \<lparr>parallel_output = cfg_parallel_output cfg,
          pre_process = cfg_pre_process cfg,
          post_process = cfg_post_process cfg,
          fp16_cross_entropy = cfg_fp16_cross_entropy cfg,
          add_encoder = cfg_add_encoder cfg,
          add_decoder = cfg_add_decoder cfg,
          position_embedding_type = cfg_position_embedding_type cfg,
          share_token_embeddings = cfg_share_token_embeddings cfg,
          share_decoder_tokens_head_embeddings = cfg_share_decoder_tokens_head_embeddings cfg,
          relative_position_bias_self_attention_only =
            cfg_relative_position_bias_self_attention_only cfg,
          encoder_embedding = ee,
          encoder_relative_position_embedding = er,
          decoder_embedding = de,
          decoder_relative_position_embedding = dr,
          decoder_cross_attention_relative_position_embedding = dx,
          enc_dec_model = new_coordinator en dn (cfg_hidden_steps cfg),
          word_embeddings = w,
          tokens_head = hh\<rparr>" and
    t: "init_tokens_head c cfg (m\<lparr>tokens_head := None\<rparr>) st1 = Inr hh"
    by (rule init_Inr)
  define m0 where "m0 = m\<lparr>tokens_head := None\<rparr>"
  have th: "tokens_head m = hh"
    and sh: "share_decoder_tokens_head_embeddings m = cfg_share_decoder_tokens_head_embeddings cfg"
    and pp: "pre_process m = cfg_pre_process cfg"
    by (simp_all add: m)
  have m0: "pre_process m0" "encoder_embedding m0 = Some ea"
    using assms(3,6) pp by (simp_all add: m0_def)
  have w: "get_word_embeddings_weight c m0 st1 = Inr (word_embeddings_weight (objs st1 ea))"
    by (rule collab_shapes_word_embeddings_weight [OF assms(5) m0])
  have t': "init_tokens_head c cfg m0 st1 = Inr hh" using t by (simp add: m0_def)
  show "\<exists>th. tokens_head m = Some (TokenLevelHead th) \<and> shape (bias th) = [v]"
    if "share_decoder_tokens_head_embeddings m"
    using t' that assms(2,4,7)
    by (auto simp: init_tokens_head_def sh th w bindE_def size_of_def MegatronTokenLevelHead_def)
  show "\<exists>w. tokens_head m = Some (ColumnParallelLinear w) \<and> shape w = [v, h]"
    if "\<not> share_decoder_tokens_head_embeddings m"
    using t' that assms(2,4,8,9)
    by (auto simp: init_tokens_head_def sh th bindE_def
        dest: collab_shapes_ColumnParallelLinear [OF assms(5)] split: sum.splits)
qed

text \<open>Under the contract each step of the forward pass runs through.\<close>

lemma size1_2: "shape e = [b, s] \<Longrightarrow> size1 (Some e) = Inr s"
  by (simp add: size1_def size_of_def)

lemma embedding_with_positions:
  assumes "collab_shapes c" and "shape ids = [b, s]" and "ids_in_range ids v"
    and "table_shape e v h n" and "position_embeddings_weight e = None \<or> s \<le> n"
  shows "\<exists>p x. build_position_ids c (Some ids) = Inr p \<and>
           embedding_forward c e (Some ids) (Some p) None = Inr x \<and> shape x = [s, b, h]"
proof -
  obtain p where p: "build_position_ids c (Some ids) = Inr p" "shape p = [b, s]"
    "ids_in_range p s"
    using collab_shapes_build_position_ids [OF assms(1,2)] by blast
  from assms(5) have "\<exists>x. embedding_forward c e (Some ids) (Some p) None = Inr x \<and>
      shape x = [s, b, h]"
  proof
    assume "position_embeddings_weight e = None"
    then show ?thesis
      by (rule collab_shapes_embedding_forward_no_positions [OF assms(1-4)])
  next
    assume "s \<le> n"
    with p(3) have "ids_in_range p n" by (rule ids_in_range_mono)
    with p(2) show ?thesis
      by (rule collab_shapes_embedding_forward_positions [OF assms(1-4)])
  qed
  with p(1) show ?thesis by blast
qed

lemma resolve_enc_input_ok:
  assumes "module_inv m" and "pre_process m" and "add_encoder m" and "collab_shapes c"
    and "enc_input a = None" and "enc_input_ids a = Some e" and "shape e = [b, s]"
    and "ids_in_range e v" and "token_type_ids a = None"
    and "encoder_embedding m = Some ea" and "table_shape (objs st ea) v h n"
    and "position_embedding_type m = ''relative'' \<longrightarrow>
           position_embeddings_weight (objs st ea) = None"
    and "position_embedding_type m = ''relative'' \<or> s \<le> n"
  shows "\<exists>tr x eb. resolve_enc_input c m st a = (tr, Inr (Some x, eb)) \<and> shape x = [s, b, h]"
proof (cases "position_embedding_type m = ''relative''")
  case False
  with assms(13) have "position_embeddings_weight (objs st ea) = None \<or> s \<le> n" by simp
  from embedding_with_positions [OF assms(4,7,8,11) this] obtain p x where
    p: "build_position_ids c (Some e) = Inr p" and
    x: "embedding_forward c (objs st ea) (Some e) (Some p) None = Inr x" "shape x = [s, b, h]"
    by blast
  show ?thesis
    unfolding resolve_enc_input_def
    using False x
    by (simp add: assms(2,3,5,6,9,10) p andthen_def call_def ret_def getattr_def)
next
  case True
  with assms(1-3) obtain r where r: "encoder_relative_position_embedding m = Some r"
    by (auto simp: module_inv_def)
  from True assms(12) have "position_embeddings_weight (objs st ea) = None" by simp
  from collab_shapes_embedding_forward_no_positions [OF assms(4,7,8,11) this, of None]
  obtain x where
    x: "embedding_forward c (objs st ea) (Some e) None None = Inr x" "shape x = [s, b, h]"
    by blast
  obtain bi where bi: "rpe_forward c r s s = Inr bi"
    using collab_shapes_rpe_forward [OF assms(4)] by blast
  show ?thesis
    unfolding resolve_enc_input_def
    using True x
    by (simp add: assms(2,3,5,6,9,10) r bi size1_2 [OF assms(7)] andthen_def call_def ret_def
        getattr_def lift_def)
qed

lemma resolve_dec_input_ok:
  assumes "module_inv m" and "pre_process m" and "add_decoder m" and "collab_shapes c"
    and "dec_input_ids a = Some d" and "shape d = [b, s]" and "ids_in_range d v"
    and "enc_input_ids a = Some e" and "shape e = [b', s']"
    and "token_type_ids a = None"
    and "decoder_embedding m = Some da" and "table_shape (objs st da) v h n"
    and "position_embeddings_weight (objs st da) = None \<or> s \<le> n"
  shows "\<exists>tr x sb cb. resolve_dec_input c m st a = (tr, Inr (Some x, sb, cb)) \<and>
           shape x = [s, b, h]"
proof -
  from embedding_with_positions [OF assms(4,6,7,12,13)] obtain p x where
    p: "build_position_ids c (Some d) = Inr p" and
    x: "embedding_forward c (objs st da) (Some d) (Some p) None = Inr x" "shape x = [s, b, h]"
    by blast
  show ?thesis
  proof (cases "position_embedding_type m = ''relative''")
    case False
    show ?thesis
      unfolding resolve_dec_input_def
      using False x
      by (simp add: assms(2,3,5,10,11) p andthen_def call_def ret_def getattr_def)
  next
    case True
    with assms(1-3) obtain r where r: "decoder_relative_position_embedding m = Some r"
      by (auto simp: module_inv_def)
    obtain sb where sb: "rpe_forward c r s s = Inr sb"
      using collab_shapes_rpe_forward [OF assms(4)] by blast
    show ?thesis
    proof (cases "relative_position_bias_self_attention_only m")
      case so: True
      show ?thesis
        unfolding resolve_dec_input_def
        using True so x
        by (simp add: assms(2,3,5,10,11) p r sb size1_2 [OF assms(6)] andthen_def call_def
            ret_def getattr_def lift_def)
    next
      case so: False
      with True assms(1-3) obtain xr where
        xr: "decoder_cross_attention_relative_position_embedding m = Some xr"
        by (auto simp: module_inv_def)
      obtain cb where cb: "rpe_forward c xr s s' = Inr cb"
        using collab_shapes_rpe_forward [OF assms(4)] by blast
      show ?thesis
        unfolding resolve_dec_input_def
        using True so x
        by (simp add: assms(2,3,5,8,10,11) p r xr sb cb size1_2 [OF assms(6)]
            size1_2 [OF assms(9)] andthen_def call_def ret_def getattr_def lift_def)
    qed
  qed
qed

lemma run_enc_dec_ok:
  assumes "module_inv m" and "pre_process m" and "add_encoder m" and "add_decoder m"
    and "collab_shapes c"
    and "resolve_dec_input c m st a = (tr, Inr (Some x, sb, cb))"
    and "enc_output a = None"
  shows "\<exists>y z. run_enc_dec c m st a (Some ei) eb =
                 (tr @ [Call_enc_dec_model], Inr (PyTuple [PyTensor y, z])) \<and>
               shape y = shape x"
proof -
  from assms(1,3,4) have n: "encoder (enc_dec_model m) \<noteq> None"
    "decoder (enc_dec_model m) \<noteq> None"
    by (auto simp: module_inv_def)
  define args where "args =
     \<lparr>ed_enc_input = Some ei,
      ed_enc_attn_mask = enc_attn_mask a,
      ed_dec_input = Some x,
      ed_dec_attn_mask = dec_attn_mask a,
      ed_enc_output = None,
      ed_enc_output_attn_mask =
        (if enc_output_attn_mask a = None then enc_attn_mask a else enc_output_attn_mask a),
      ed_enc_self_attention_relative_position_bias = eb,
      ed_dec_self_attention_relative_position_bias = sb,
      ed_dec_cross_attention_relative_position_bias = cb\<rparr>"
  have "ed_enc_input args = Some ei" "ed_enc_output args = None" "ed_dec_input args = Some x"
    by (simp_all add: args_def)
  from collab_shapes_enc_dec_forward [OF assms(5) n this] obtain y z where
    y: "enc_dec_forward c (enc_dec_model m) args = Inr (PyTuple [PyTensor y, z])"
      "shape y = shape x"
    by blast
  show ?thesis
    unfolding run_enc_dec_def Let_def
    using y
    by (simp add: assms(6,7) andthen_def call_def ret_def args_def)
qed

lemma token_logits_ok:
  assumes "collab_shapes c" and "pre_process m" and "encoder_embedding m = Some ea"
    and "shape (word_embeddings_weight (objs st ea)) = [v, h]"
    and "share_decoder_tokens_head_embeddings m \<Longrightarrow>
           \<exists>th. tokens_head m = Some (TokenLevelHead th) \<and> shape (bias th) = [v]"
    and "\<not> share_decoder_tokens_head_embeddings m \<Longrightarrow>
           \<exists>w. tokens_head m = Some (ColumnParallelLinear w) \<and> shape w = [v, h]"
    and "shape y = [s, b, h]"
  shows "\<exists>tr l. token_logits c m st (PyTuple [PyTensor y, z]) = (tr, Inr l) \<and>
           shape l = [s, b, v]"
proof (cases "share_decoder_tokens_head_embeddings m")
  case True
  from assms(5) [OF True] obtain th where
    th: "tokens_head m = Some (TokenLevelHead th)" "shape (bias th) = [v]"
    by blast
  have w: "get_word_embeddings_weight c m st = Inr (word_embeddings_weight (objs st ea))"
    by (rule collab_shapes_word_embeddings_weight [OF assms(1,2,3)])
  obtain l where
    l: "head_forward c th (PyTensor y) (word_embeddings_weight (objs st ea)) = Inr l"
      "shape l = [s, b, v]"
    using collab_shapes_parallel_lm_logits [OF assms(1,7,4) th(2)]
    unfolding head_forward_def Let_def by blast
  show ?thesis
    unfolding token_logits_def
    using l
    by (simp add: th(1) True w unpack2_def andthen_def call_def ret_def lift_def getattr_def)
next
  case False
  from assms(6) [OF False] obtain w where
    w: "tokens_head m = Some (ColumnParallelLinear w)" "shape w = [v, h]"
    by blast
  obtain l u where l: "column_parallel_linear_forward c w (PyTensor y) = Inr (l, u)"
    "shape l = [s, b, v]"
    using collab_shapes_column_parallel_linear [OF assms(1,7) w(2)] by blast
  show ?thesis
    unfolding token_logits_def
    using l
    by (simp add: w(1) False unpack2_def andthen_def call_def ret_def lift_def getattr_def)
qed

lemma tokens_loss_ok:
  assumes "collab_shapes c" and "shape logits = [s, b, v]" and "shape lab = [b, s]"
    and "ids_in_range lab v" and "\<not> (fp16_cross_entropy m \<and> dtype logits \<noteq> Half)"
  shows "\<exists>lab' loss r.
           transpose01 lab = Inr lab' \<and>
           vocab_parallel_cross_entropy c
             (if fp16_cross_entropy m then logits else to_float logits) lab' = Inr loss \<and>
           shape loss = [s, b] \<and>
           tokens_loss c m logits lab =
             ([Call_vocab_parallel_cross_entropy
                 (if fp16_cross_entropy m then Half else Float32)],
              Inr (PyTensor r)) \<and>
           shape r = [b, s] \<and>
           (\<forall>i j. elems r [i, j] = elems loss [j, i])"
proof -
  obtain lab' where lab': "transpose01 lab = Inr lab'" "shape lab' = [s, b]"
    using transpose01_2 [OF assms(3)] by blast
  have ir: "ids_in_range lab' v" by (rule ids_in_range_transpose01 [OF assms(4) lab'(1)])
  define lg where "lg = (if fp16_cross_entropy m then logits else to_float logits)"
  have lf: "shape lg = [s, b, v]" using assms(2) by (simp add: lg_def to_float_def)
  obtain loss where loss: "vocab_parallel_cross_entropy c lg lab' = Inr loss"
    "shape loss = [s, b]"
    using collab_shapes_cross_entropy [OF assms(1) lf lab'(2) ir] by blast
  obtain r where r: "transpose01 loss = Inr r" "shape r = [b, s]"
    "\<forall>i j. elems r [i, j] = elems loss [j, i]"
    using transpose01_2 [OF loss(2)] by blast
  have "tokens_loss c m logits lab =
          ([Call_vocab_parallel_cross_entropy (if fp16_cross_entropy m then Half else Float32)],
           Inr (PyTensor r))"
    using assms(5) loss(1) unfolding lg_def
    by (cases "fp16_cross_entropy m") (simp_all add: tokens_loss_eq [OF lab'(1)] r(1) bindE_def)
  with lab'(1) loss r(2,3) show ?thesis unfolding lg_def by blast
qed

lemma forward_no_labels:
  assumes "\<not> output_enc_hidden_only a" and "post_process m" and "add_decoder m"
    and "labels a = None"
    and "resolve_enc_input c m st a = (tr1, Inr (ei, eb))"
    and "run_enc_dec c m st a ei eb = (tr2, Inr out)"
    and "token_logits c m st out = (tr3, Inr logits)"
    and "transpose01 logits = Inr r"
  shows "forward c m st a = (tr1 @ tr2 @ tr3, Inr (PyTensor r))"
  using assms
  by (simp add: forward_def finish_def andthen_def lift_def ret_def)

subsection \<open>Logits and loss, end to end\<close>

text \<open>
  Claim C1, as amended. Take a module constructed with \<^verbatim>\<open>add_encoder\<close>, \<^verbatim>\<open>add_decoder\<close>,
  \<^verbatim>\<open>pre_process\<close> and \<^verbatim>\<open>post_process\<close> set, collaborators that keep the contract
  \<open>collab_shapes\<close>, a store whose tables have the shapes they were built with, and a
  forward call with encoder and decoder token ids of shape \<open>[b, s]\<close> that lie in the
  vocabulary (no token types, no precomputed encoder input or output, not encode-only);
  with learned absolute positions, \<open>s\<close> is at most \<^verbatim>\<open>max_position_embeddings\<close>. The
  head's logits have shape \<open>[s, b, vocab_size]\<close>. Without labels the call returns them
  transposed: shape \<open>[b, s, vocab_size]\<close>, entry \<open>[i, j, k]\<close> being the logits'
  \<open>[j, i, k]\<close>. With labels of shape \<open>[b, s]\<close> that lie in the vocabulary:
  \<^item> if \<^verbatim>\<open>fp16_cross_entropy\<close> is set and the logits are not half, the call fails with
    \<^verbatim>\<open>AssertionError\<close> after the head and returns no loss;
  \<^item> otherwise it returns the cross-entropy's per-token loss transposed: shape \<open>[b, s]\<close>,
    entry \<open>[i, j]\<close> being the loss's \<open>[j, i]\<close>, every entry kept as the cross-entropy
    gave it. The cross-entropy is given the logits as they are when \<^verbatim>\<open>fp16_cross_entropy\<close>
    is set, and cast to float32 when it is not.
\<close>

theorem forward_logits_and_loss:
  assumes "init c cfg st0 = Inr (m, st1)"
    and "cfg_add_encoder cfg" and "cfg_add_decoder cfg" and "cfg_pre_process cfg"
    and "cfg_post_process cfg"
    and "collab_shapes c" and "same_shapes st st1"
    and "enc_input_ids a = Some e" and "shape e = [b, s]"
    and "ids_in_range e (nat (cfg_vocab_size cfg))"
    and "dec_input_ids a = Some d" and "shape d = [b, s]"
    and "ids_in_range d (nat (cfg_vocab_size cfg))"
    and "cfg_position_embedding_type cfg = ''relative'' \<or>
         s \<le> nat (cfg_max_position_embeddings cfg)"
    and "token_type_ids a = None" and "enc_input a = None" and "enc_output a = None"
    and "\<not> output_enc_hidden_only a"
  shows "\<exists>tr1 tr2 tr3 ei eb out logits.
           resolve_enc_input c m st a = (tr1, Inr (ei, eb)) \<and>
           run_enc_dec c m st a ei eb = (tr2, Inr out) \<and>
           token_logits c m st out = (tr3, Inr logits) \<and>
           shape logits = [s, b, nat (cfg_vocab_size cfg)] \<and>
           (labels a = None \<longrightarrow>
              (\<exists>r. forward c m st a = (tr1 @ tr2 @ tr3, Inr (PyTensor r)) \<and>
                   shape r = [b, s, nat (cfg_vocab_size cfg)] \<and> dtype r = dtype logits \<and>
                   (\<forall>i j k. elems r [i, j, k] = elems logits [j, i, k]))) \<and>
           (\<forall>lab. labels a = Some lab \<and> shape lab = [b, s] \<and>
                  ids_in_range lab (nat (cfg_vocab_size cfg)) \<longrightarrow>
              (fp16_cross_entropy m \<and> dtype logits \<noteq> Half \<longrightarrow>
                 forward c m st a = (tr1 @ tr2 @ tr3, Inl AssertionError)) \<and>
              (\<not> (fp16_cross_entropy m \<and> dtype logits \<noteq> Half) \<longrightarrow>
                 (\<exists>lab' loss r.
                    transpose01 lab = Inr lab' \<and>
                    vocab_parallel_cross_entropy c
                      (if fp16_cross_entropy m then logits else to_float logits) lab' =
                      Inr loss \<and>
                    shape loss = [s, b] \<and>
                    forward c m st a =
                      (tr1 @ tr2 @ tr3 @
                       [Call_vocab_parallel_cross_entropy
                          (if fp16_cross_entropy m then Half else Float32)],
                       Inr (PyTensor r)) \<and>
                    shape r = [b, s] \<and>
                    (\<forall>i j. elems r [i, j] = elems loss [j, i]))))"
proof -
  define V where "V = nat (cfg_vocab_size cfg)"
  define H where "H = nat (cfg_hidden_size cfg)"
  define N where "N = nat (cfg_max_position_embeddings cfg)"
  have inv: "module_inv m" by (rule init_module_inv [OF assms(1)])
  have fl: "pre_process m" "post_process m" "add_encoder m" "add_decoder m"
    using init_flags(1-4) [OF assms(1)] assms(2-5) by simp_all
  have pt: "position_embedding_type m = cfg_position_embedding_type cfg"
    by (rule init_flags(6) [OF assms(1)])
  from init_tables [OF assms(1,2,3,4,6)] obtain ea da where
    ea: "encoder_embedding m = Some ea" and da: "decoder_embedding m = Some da" and
    t1: "table_shape (objs st1 ea) V H N" "table_shape (objs st1 da) V H N" and
    np1: "cfg_position_embedding_type cfg = ''relative'' \<longrightarrow>
            position_embeddings_weight (objs st1 ea) = None \<and>
            position_embeddings_weight (objs st1 da) = None"
    unfolding V_def H_def N_def by blast
  have w1: "shape (word_embeddings_weight (objs st1 ea)) = [V, H]"
    using t1(1) by (simp add: table_shape_def)
  note hd = init_head [OF assms(1,3,4,5,6) ea w1 V_def H_def]
  have t: "table_shape (objs st ea) V H N" "table_shape (objs st da) V H N"
    using t1 by (simp_all add: same_shapes_table [OF assms(7)])
  have np: "cfg_position_embedding_type cfg = ''relative'' \<longrightarrow>
            position_embeddings_weight (objs st ea) = None \<and>
            position_embeddings_weight (objs st da) = None"
    using np1 by (simp add: same_shapes_no_positions [OF assms(7)])
  have w: "shape (word_embeddings_weight (objs st ea)) = [V, H]"
    using t(1) by (simp add: table_shape_def)
  have pe: "position_embedding_type m = ''relative'' \<longrightarrow>
              position_embeddings_weight (objs st ea) = None"
    and ps: "position_embedding_type m = ''relative'' \<or> s \<le> N"
    and pd: "position_embeddings_weight (objs st da) = None \<or> s \<le> N"
    using np assms(14) by (auto simp: pt N_def)
  obtain tr1 x eb where
    1: "resolve_enc_input c m st a = (tr1, Inr (Some x, eb))"
    using resolve_enc_input_ok [OF inv fl(1,3) assms(6,16,8,9)
        assms(10) [folded V_def] assms(15) ea t(1) pe ps]
    by blast
  obtain trd y0 sb cb where
    d: "resolve_dec_input c m st a = (trd, Inr (Some y0, sb, cb))" and
    y0: "shape y0 = [s, b, H]"
    using resolve_dec_input_ok [OF inv fl(1,4) assms(6,11,12) assms(13) [folded V_def]
        assms(8,9,15) da t(2) pd]
    by blast
  obtain y z where
    2: "run_enc_dec c m st a (Some x) eb =
          (trd @ [Call_enc_dec_model], Inr (PyTuple [PyTensor y, z]))"
    and "shape y = shape y0"
    using run_enc_dec_ok [OF inv fl(1,3,4) assms(6) d assms(17)] by blast
  with y0 have y: "shape y = [s, b, H]" by simp
  obtain tr3 logits where
    3: "token_logits c m st (PyTuple [PyTensor y, z]) = (tr3, Inr logits)"
    and l: "shape logits = [s, b, V]"
    using token_logits_ok [OF assms(6) fl(1) ea w hd y] by blast
  define tr2 where "tr2 = trd @ [Call_enc_dec_model]"
  note 2 = 2 [folded tr2_def]
  have C: "labels a = None \<longrightarrow>
              (\<exists>r. forward c m st a = (tr1 @ tr2 @ tr3, Inr (PyTensor r)) \<and>
                   shape r = [b, s, V] \<and> dtype r = dtype logits \<and>
                   (\<forall>i j k. elems r [i, j, k] = elems logits [j, i, k]))"
  proof
    assume n: "labels a = None"
    obtain r where r: "transpose01 logits = Inr r" "shape r = [b, s, V]"
      "dtype r = dtype logits" "\<forall>i j k. elems r [i, j, k] = elems logits [j, i, k]"
      using transpose01_3 [OF l] by blast
    show "\<exists>r. forward c m st a = (tr1 @ tr2 @ tr3, Inr (PyTensor r)) \<and>
                   shape r = [b, s, V] \<and> dtype r = dtype logits \<and>
                   (\<forall>i j k. elems r [i, j, k] = elems logits [j, i, k])"
      using forward_no_labels [OF assms(18) fl(2,4) n 1 2 3 r(1)] r(2,3,4) by blast
  qed
  have D: "\<forall>lab. labels a = Some lab \<and> shape lab = [b, s] \<and> ids_in_range lab V \<longrightarrow>
              (fp16_cross_entropy m \<and> dtype logits \<noteq> Half \<longrightarrow>
                 forward c m st a = (tr1 @ tr2 @ tr3, Inl AssertionError)) \<and>
              (\<not> (fp16_cross_entropy m \<and> dtype logits \<noteq> Half) \<longrightarrow>
                 (\<exists>lab' loss r.
                    transpose01 lab = Inr lab' \<and>
                    vocab_parallel_cross_entropy c
                      (if fp16_cross_entropy m then logits else to_float logits) lab' =
                      Inr loss \<and>
                    shape loss = [s, b] \<and>
                    forward c m st a =
                      (tr1 @ tr2 @ tr3 @
                       [Call_vocab_parallel_cross_entropy
                          (if fp16_cross_entropy m then Half else Float32)],
                       Inr (PyTensor r)) \<and>
                    shape r = [b, s] \<and>
                    (\<forall>i j. elems r [i, j] = elems loss [j, i])))"
  proof (intro allI impI conjI)
    fix lab
    assume p: "labels a = Some lab \<and> shape lab = [b, s] \<and> ids_in_range lab V"
      and f: "fp16_cross_entropy m \<and> dtype logits \<noteq> Half"
    from p have la: "labels a = Some lab" and sl: "shape lab = [b, s]" by simp_all
    obtain lab' where lab': "transpose01 lab = Inr lab'"
      using transpose01_2 [OF sl] by blast
    show "forward c m st a = (tr1 @ tr2 @ tr3, Inl AssertionError)"
      using f
      by (simp add: forward_labels [OF assms(18) fl(2,4) la 1 2 3] tokens_loss_eq [OF lab'])
  next
    fix lab
    assume p: "labels a = Some lab \<and> shape lab = [b, s] \<and> ids_in_range lab V"
      and f: "\<not> (fp16_cross_entropy m \<and> dtype logits \<noteq> Half)"
    from p have la: "labels a = Some lab" and sl: "shape lab = [b, s]"
      and ir: "ids_in_range lab V" by simp_all
    from tokens_loss_ok [OF assms(6) l sl ir f] obtain lab' loss r where
      k: "transpose01 lab = Inr lab'"
        "vocab_parallel_cross_entropy c
           (if fp16_cross_entropy m then logits else to_float logits) lab' = Inr loss"
        "shape loss = [s, b]"
        "tokens_loss c m logits lab =
           ([Call_vocab_parallel_cross_entropy
               (if fp16_cross_entropy m then Half else Float32)],
            Inr (PyTensor r))"
        "shape r = [b, s]"
        "\<forall>i j. elems r [i, j] = elems loss [j, i]"
      by blast
    have "forward c m st a =
            (tr1 @ tr2 @ tr3 @
             [Call_vocab_parallel_cross_entropy
                (if fp16_cross_entropy m then Half else Float32)],
             Inr (PyTensor r))"
      by (simp add: forward_labels [OF assms(18) fl(2,4) la 1 2 3] k(4))
    with k(1,2,3,5,6) show "\<exists>lab' loss r.
                    transpose01 lab = Inr lab' \<and>
                    vocab_parallel_cross_entropy c
                      (if fp16_cross_entropy m then logits else to_float logits) lab' =
                      Inr loss \<and>
                    shape loss = [s, b] \<and>
                    forward c m st a =
                      (tr1 @ tr2 @ tr3 @
                       [Call_vocab_parallel_cross_entropy
                          (if fp16_cross_entropy m then Half else Float32)],
                       Inr (PyTensor r)) \<and>
                    shape r = [b, s] \<and>
                    (\<forall>i j. elems r [i, j] = elems loss [j, i])"
      by blast
  qed
  show ?thesis
    unfolding V_def [symmetric]
    by (rule exI [of _ tr1], rule exI [of _ tr2], rule exI [of _ tr3], rule exI [of _ "Some x"],
        rule exI [of _ eb], rule exI [of _ "PyTuple [PyTensor y, z]"], rule exI [of _ logits])
      (intro conjI 1 2 3 l C D)
qed

subsection \<open>The forward pass on the concrete instance\<close>

text \<open>The stand-ins keep the contract, whatever the dtype of their logits.\<close>

lemma demo_collab_shapes: "collab_shapes (demo_collab_of dt)"
proof -
  let ?c = "demo_collab_of dt"
  have h1: "\<forall>cfg a e. Embedding ?c cfg a = Inr e \<longrightarrow>
         table_shape e (nat (cfg_vocab_size cfg)) (nat (cfg_hidden_size cfg))
           (nat (cfg_max_position_embeddings cfg)) \<and>
         (cfg_position_embedding_type cfg = ''relative'' \<longrightarrow>
            position_embeddings_weight e = None)"
    by (auto simp: demo_collab_of_def demo_Embedding_def table_shape_def demo_weight_def)
  have h2: "\<forall>cfg w. new_ColumnParallelLinear ?c cfg = Inr w \<longrightarrow>
         shape w = [nat (cfg_vocab_size cfg), nat (cfg_hidden_size cfg)]"
    by (auto simp: demo_collab_of_def demo_weight_def)
  have h3: "\<forall>m st a. pre_process m \<and> encoder_embedding m = Some a \<longrightarrow>
         get_word_embeddings_weight ?c m st = Inr (word_embeddings_weight (objs st a))"
    by (simp add: demo_collab_of_def demo_word_embeddings_weight_def)
  have h4: "\<forall>t b s. shape t = [b, s] \<longrightarrow>
         (\<exists>p. build_position_ids ?c (Some t) = Inr p \<and> shape p = [b, s] \<and>
              ids_in_range p s)"
    by (simp add: demo_collab_of_def ids_in_range_def)
  have h5: "\<forall>r q k. \<exists>x. rpe_forward ?c r q k = Inr x"
    by (simp add: demo_collab_of_def)
  have h6: "\<forall>e ids pos b s v h n.
         shape ids = [b, s] \<and> ids_in_range ids v \<and> table_shape e v h n \<and>
         position_embeddings_weight e = None \<longrightarrow>
         (\<exists>x. embedding_forward ?c e (Some ids) pos None = Inr x \<and> shape x = [s, b, h])"
    by (simp add: demo_collab_of_def demo_embedding_forward_def table_shape_def)
  have h7: "\<forall>e ids p b s v h n.
         shape ids = [b, s] \<and> ids_in_range ids v \<and> table_shape e v h n \<and>
         shape p = [b, s] \<and> ids_in_range p n \<longrightarrow>
         (\<exists>x. embedding_forward ?c e (Some ids) (Some p) None = Inr x \<and>
              shape x = [s, b, h])"
    by (simp add: demo_collab_of_def demo_embedding_forward_def table_shape_def)
  have h8: "\<forall>co args x d.
         encoder co \<noteq> None \<and> decoder co \<noteq> None \<and> ed_enc_input args = Some x \<and>
         ed_enc_output args = None \<and> ed_dec_input args = Some d \<longrightarrow>
         (\<exists>y z. enc_dec_forward ?c co args = Inr (PyTuple [PyTensor y, z]) \<and>
                 shape y = shape d)"
    by (auto simp: demo_collab_of_def demo_enc_dec_forward_def bindE_def)
  have h9: "\<forall>t w po bi as s b v h.
         shape t = [s, b, h] \<and> shape w = [v, h] \<and> shape bi = [v] \<longrightarrow>
         (\<exists>l. parallel_lm_logits ?c (PyTensor t) w po bi as = Inr l \<and> shape l = [s, b, v])"
    by (simp add: demo_collab_of_def demo_logits_def)
  have h10: "\<forall>t w s b v h. shape t = [s, b, h] \<and> shape w = [v, h] \<longrightarrow>
         (\<exists>l z. column_parallel_linear_forward ?c w (PyTensor t) = Inr (l, z) \<and>
                 shape l = [s, b, v])"
    by (simp add: demo_collab_of_def demo_logits_def)
  have h11: "\<forall>l lab s b v.
         shape l = [s, b, v] \<and> shape lab = [s, b] \<and> ids_in_range lab v \<longrightarrow>
         (\<exists>x. vocab_parallel_cross_entropy ?c l lab = Inr x \<and> shape x = [s, b])"
    by (simp add: demo_collab_of_def demo_cross_entropy_def)
  show ?thesis
    unfolding collab_shapes_def by (intro conjI h1 h2 h3 h4 h5 h6 h7 h8 h9 h10 h11)
qed

lemma demo_ids_in_range: "ids_in_range demo_ids 4"
proof -
  have s: "shape demo_ids = [2, 5]" by (simp add: demo_ids_def)
  have "\<exists>n<4. elems demo_ids [i, j] = real n" for i j
    by (rule exI [of _ "(i + j) mod 4"]) (simp add: demo_ids_def)
  with s show ?thesis unfolding ids_in_range_def by blast
qed

text \<open>The forward pass on the concrete instance, step by step.\<close>

lemma demo_forward_steps:
  fixes f :: bool
  defines "m \<equiv> demo_module\<lparr>fp16_cross_entropy := f\<rparr>"
  assumes "enc_input a = None" and "enc_input_ids a = Some demo_ids"
    and "dec_input_ids a = Some demo_ids" and "enc_output a = None"
  shows "resolve_enc_input (demo_collab_of dt) m demo_store' a =
           ([Call_build_position_ids_enc, Call_encoder_embedding 0],
            Inr (Some demo_embedded, None))"
    and "run_enc_dec (demo_collab_of dt) m demo_store' a (Some demo_embedded) None =
           ([Call_build_position_ids_dec, Call_decoder_embedding 0, Call_enc_dec_model],
            Inr (PyTuple [PyTensor demo_embedded, PyTensor demo_embedded]))"
    and "token_logits (demo_collab_of dt) m demo_store'
             (PyTuple [PyTensor demo_embedded, PyTensor demo_embedded]) =
           ([Call_word_embeddings_weight, Call_tokens_head], Inr (demo_logit_tensor dt))"
proof -
  have e: "embedding_forward (demo_collab_of dt) = demo_embedding_forward"
    "enc_dec_forward (demo_collab_of dt) = demo_enc_dec_forward"
    "get_word_embeddings_weight (demo_collab_of dt) = demo_word_embeddings_weight"
    "parallel_lm_logits (demo_collab_of dt) = (\<lambda>hs w po bi as. demo_logits dt hs w)"
    and b: "\<exists>p. build_position_ids (demo_collab_of dt) (Some demo_ids) = Inr p"
    by (simp_all add: demo_collab_of_def)
  from b obtain p where p: "build_position_ids (demo_collab_of dt) (Some demo_ids) = Inr p" ..
  have o: "objs demo_store' 0 = demo_table" by (simp add: demo_store'_def)
  have m: "pre_process m" "add_encoder m" "add_decoder m"
    "position_embedding_type m = ''learned_absolute''"
    "encoder_embedding m = Some 0" "decoder_embedding m = Some 0"
    "encoder (enc_dec_model m) = Some demo_net" "decoder (enc_dec_model m) = Some demo_net"
    "share_decoder_tokens_head_embeddings m"
    "tokens_head m = Some (TokenLevelHead (MegatronTokenLevelHead 4 True))"
    by (simp_all add: m_def demo_module_def)
  have s: "shape demo_embedded = [5, 2, 2]"
    "shape (word_embeddings_weight demo_table) = [4, 2]"
    by (simp_all add: demo_embedded_def demo_table_def demo_weight_def)
  show "resolve_enc_input (demo_collab_of dt) m demo_store' a =
           ([Call_build_position_ids_enc, Call_encoder_embedding 0],
            Inr (Some demo_embedded, None))"
    by (rule demo_resolve_enc_input [OF m(1,2,4,5) assms(2,3)])
  show "run_enc_dec (demo_collab_of dt) m demo_store' a (Some demo_embedded) None =
           ([Call_build_position_ids_dec, Call_decoder_embedding 0, Call_enc_dec_model],
            Inr (PyTuple [PyTensor demo_embedded, PyTensor demo_embedded]))"
    unfolding run_enc_dec_def resolve_dec_input_def
    by (simp add: assms(2-) m p e o demo_embedding_forward_ids andthen_def call_def ret_def
        getattr_def demo_enc_dec_forward_def bindE_def)
  show "token_logits (demo_collab_of dt) m demo_store'
             (PyTuple [PyTensor demo_embedded, PyTensor demo_embedded]) =
           ([Call_word_embeddings_weight, Call_tokens_head], Inr (demo_logit_tensor dt))"
    unfolding token_logits_def
    by (simp add: m e o s unpack2_def andthen_def call_def ret_def lift_def getattr_def
        head_forward_def demo_word_embeddings_weight_def demo_logits_def demo_logit_tensor_def)
qed

lemma demo_module_fp16: "demo_module = demo_module\<lparr>fp16_cross_entropy := False\<rparr>"
  "demo_fp16_module = demo_module\<lparr>fp16_cross_entropy := True\<rparr>"
  by (simp_all add: demo_module_def demo_fp16_module_def)

lemma demo_label_args_simps:
  "\<not> output_enc_hidden_only demo_label_args" "enc_input demo_label_args = None"
  "enc_input_ids demo_label_args = Some demo_ids" "dec_input_ids demo_label_args = Some demo_ids"
  "enc_output demo_label_args = None" "labels demo_label_args = Some demo_ids"
  "token_type_ids demo_label_args = None"
  by (simp_all add: demo_label_args_def demo_args_def)

lemma demo_transpose_ids:
  "transpose01 demo_ids =
     Inr \<lparr>shape = [5, 2], dtype = Int64, elems = (\<lambda>idx. elems demo_ids (swap01 idx))\<rparr>"
proof -
  have s: "shape demo_ids = [2, 5]" "dtype demo_ids = Int64" by (simp_all add: demo_ids_def)
  show ?thesis by (simp add: transpose01_def s)
qed

lemma demo_flags:
  "post_process demo_fp16_module" "add_decoder demo_fp16_module"
  "fp16_cross_entropy demo_fp16_module"
  "post_process demo_module" "add_decoder demo_module" "\<not> fp16_cross_entropy demo_module"
  by (simp_all add: demo_fp16_module_def demo_module_def)

lemma demo_config_flags:
  "cfg_add_encoder demo_config" "cfg_add_decoder demo_config"
  "cfg_pre_process demo_config" "cfg_post_process demo_config"
  "cfg_add_encoder demo_fp16_config" "cfg_add_decoder demo_fp16_config"
  "cfg_pre_process demo_fp16_config" "cfg_post_process demo_fp16_config"
  by (simp_all add: demo_config_def demo_fp16_config_def)

lemma demo_logit_tensor_simps:
  "shape (demo_logit_tensor dt) = [5, 2, 4]" "dtype (demo_logit_tensor dt) = dt"
  by (simp_all add: demo_logit_tensor_def)

text \<open>
  A call with labels on the concrete instance whose loss is computed: what it returns.
\<close>

lemma demo_forward_loss:
  fixes f :: bool
  defines "m \<equiv> demo_module\<lparr>fp16_cross_entropy := f\<rparr>"
  assumes "\<not> (f \<and> dt \<noteq> Half)"
  shows "\<exists>r. forward (demo_collab_of dt) m demo_store' demo_label_args =
           ([Call_build_position_ids_enc, Call_encoder_embedding 0,
             Call_build_position_ids_dec, Call_decoder_embedding 0, Call_enc_dec_model,
             Call_word_embeddings_weight, Call_tokens_head,
             Call_vocab_parallel_cross_entropy (if f then Half else Float32)],
            Inr (PyTensor r)) \<and> shape r = [2, 5]"
proof -
  note a = demo_label_args_simps
  note s = demo_forward_steps [where f = f and dt = dt, OF a(2,3,4,5), folded m_def]
  have fl: "post_process m" "add_decoder m" "fp16_cross_entropy m = f"
    by (simp_all add: m_def demo_module_def)
  have i: "shape demo_ids = [2, 5]" by (simp add: demo_ids_def)
  have n: "\<not> (fp16_cross_entropy m \<and> dtype (demo_logit_tensor dt) \<noteq> Half)"
    using assms(2) by (simp add: fl(3) demo_logit_tensor_simps)
  from tokens_loss_ok [OF demo_collab_shapes demo_logit_tensor_simps(1) i demo_ids_in_range n]
  obtain r where
    "tokens_loss (demo_collab_of dt) m (demo_logit_tensor dt) demo_ids =
       ([Call_vocab_parallel_cross_entropy (if fp16_cross_entropy m then Half else Float32)],
        Inr (PyTensor r))"
    "shape r = [2, 5]"
    by blast
  then show ?thesis
    by (simp add: forward_labels [OF a(1) fl(1,2) a(6) s] fl(3))
qed

text \<open>Functions have one result: what is known of some run is known of the run.\<close>

lemma pick_logits:
  assumes "\<exists>tr1 tr2 tr3 ei eb out logits.
             re = (tr1, Inr (ei, eb)) \<and> rd ei eb = (tr2, Inr out) \<and>
             lg out = (tr3, Inr logits) \<and> P tr1 tr2 tr3 logits"
    and "re = (t1, Inr (ei0, eb0))" and "rd ei0 eb0 = (t2, Inr out0)"
    and "lg out0 = (t3, Inr l0)"
  shows "P t1 t2 t3 l0"
  using assms by auto

theorem cross_entropy_precision_witness:
  "fp16_cross_entropy demo_fp16_module \<and> dtype (demo_logit_tensor Float32) = Float32 \<and>
   forward demo_collab demo_fp16_module demo_store' demo_label_args =
     ([Call_build_position_ids_enc, Call_encoder_embedding 0, Call_build_position_ids_dec,
       Call_decoder_embedding 0, Call_enc_dec_model, Call_word_embeddings_weight,
       Call_tokens_head],
      Inl AssertionError) \<and>
   dtype (demo_logit_tensor Half) = Half \<and>
   fst (forward demo_half_collab demo_fp16_module demo_store' demo_label_args) =
     [Call_build_position_ids_enc, Call_encoder_embedding 0, Call_build_position_ids_dec,
      Call_decoder_embedding 0, Call_enc_dec_model, Call_word_embeddings_weight,
      Call_tokens_head, Call_vocab_parallel_cross_entropy Half] \<and>
   \<not> fp16_cross_entropy demo_module \<and>
   fst (forward demo_collab demo_module demo_store' demo_label_args) =
     [Call_build_position_ids_enc, Call_encoder_embedding 0, Call_build_position_ids_dec,
      Call_decoder_embedding 0, Call_enc_dec_model, Call_word_embeddings_weight,
      Call_tokens_head, Call_vocab_parallel_cross_entropy Float32]"
proof -
  note a = demo_label_args_simps
  note f = demo_flags
  note d = demo_logit_tensor_simps(2)
  note s1 = demo_forward_steps [where f = True and dt = Float32, OF a(2,3,4,5),
      folded demo_module_fp16(2) demo_collab_def]
  note s2 = demo_forward_steps [where f = True and dt = Half, OF a(2,3,4,5),
      folded demo_module_fp16(2) demo_half_collab_def]
  note s0 = demo_forward_steps [where f = False and dt = Float32, OF a(2,3,4,5),
      folded demo_module_fp16(1) demo_collab_def]
  show ?thesis
    using cross_entropy_precision [OF a(1) f(1,2) a(6) s1 demo_transpose_ids]
      cross_entropy_precision [OF a(1) f(1,2) a(6) s2 demo_transpose_ids]
      cross_entropy_precision [OF a(1) f(4,5) a(6) s0 demo_transpose_ids] f d
    by simp
qed

text \<open>
  Claim C7 as stated fails: a mismatch between the flag and the dtype of the logits is no
  failure when it is the flag that is unset. The module built from \<open>demo_config\<close>, where
  \<^verbatim>\<open>fp16_cross_entropy\<close> is unset, gets half logits from its head; the call with labels
  casts them, calls the cross-entropy in float32 and returns the loss.
\<close>

theorem cross_entropy_mismatch_counterexample:
  "init demo_half_collab demo_config demo_store = Inr (demo_module, demo_store') \<and>
   \<not> fp16_cross_entropy demo_module \<and>
   labels demo_label_args = Some demo_ids \<and>
   token_logits demo_half_collab demo_module demo_store'
       (PyTuple [PyTensor demo_embedded, PyTensor demo_embedded]) =
     ([Call_word_embeddings_weight, Call_tokens_head], Inr (demo_logit_tensor Half)) \<and>
   dtype (demo_logit_tensor Half) = Half \<and>
   fst (forward demo_half_collab demo_module demo_store' demo_label_args) =
     [Call_build_position_ids_enc, Call_encoder_embedding 0, Call_build_position_ids_dec,
      Call_decoder_embedding 0, Call_enc_dec_model, Call_word_embeddings_weight,
      Call_tokens_head, Call_vocab_parallel_cross_entropy Float32] \<and>
   result_shape (forward demo_half_collab demo_module demo_store' demo_label_args) =
     Some [2, 5]"
proof -
  note a = demo_label_args_simps
  note s = demo_forward_steps [where f = False and dt = Half, OF a(2,3,4,5),
      folded demo_module_fp16(1) demo_half_collab_def]
  from demo_forward_loss [where f = False and dt = Half, folded demo_module_fp16(1) demo_half_collab_def]
  obtain r where
    "forward demo_half_collab demo_module demo_store' demo_label_args =
           ([Call_build_position_ids_enc, Call_encoder_embedding 0,
             Call_build_position_ids_dec, Call_decoder_embedding 0, Call_enc_dec_model,
             Call_word_embeddings_weight, Call_tokens_head,
             Call_vocab_parallel_cross_entropy Float32],
            Inr (PyTensor r))" "shape r = [2, 5]"
    by auto
  then show ?thesis
    using demo_init_of [of Half, folded demo_half_collab_def] demo_flags(6) a(6) s(3)
      demo_logit_tensor_simps(2) [of Half]
    by (simp add: result_shape_def)
qed

theorem forward_logits_and_loss_witness:
  "result_shape (forward demo_collab demo_module demo_store' demo_args) = Some [2, 5, 4] \<and>
   result_shape (forward demo_collab demo_module demo_store' demo_label_args) = Some [2, 5] \<and>
   result_shape (forward demo_half_collab demo_fp16_module demo_store' demo_label_args) =
     Some [2, 5] \<and>
   snd (forward demo_collab demo_fp16_module demo_store' demo_label_args) =
     Inl AssertionError"
proof -
  note f = demo_config_flags
  have s: "shape demo_ids = [2, 5]" by (simp add: demo_ids_def)
  have v: "nat (cfg_vocab_size demo_config) = 4" "nat (cfg_vocab_size demo_fp16_config) = 4"
    by (simp_all add: demo_config_def demo_fp16_config_def)
  have r: "ids_in_range demo_ids (nat (cfg_vocab_size demo_config))"
    "ids_in_range demo_ids (nat (cfg_vocab_size demo_fp16_config))"
    using demo_ids_in_range by (simp_all add: v)
  have p: "cfg_position_embedding_type demo_config = ''relative'' \<or>
           5 \<le> nat (cfg_max_position_embeddings demo_config)"
    "cfg_position_embedding_type demo_fp16_config = ''relative'' \<or>
           5 \<le> nat (cfg_max_position_embeddings demo_fp16_config)"
    by (simp_all add: demo_config_def demo_fp16_config_def)
  have a: "enc_input_ids demo_args = Some demo_ids" "dec_input_ids demo_args = Some demo_ids"
    "enc_input demo_args = None" "enc_output demo_args = None"
    "\<not> output_enc_hidden_only demo_args" "labels demo_args = None"
    "token_type_ids demo_args = None"
    by (simp_all add: demo_args_def)
  note b = demo_label_args_simps
  note c0 = demo_collab_shapes [of Float32, folded demo_collab_def]
  note c1 = demo_collab_shapes [of Half, folded demo_half_collab_def]
  note n = demo_flags(3,6)
  have "\<exists>tr r. forward demo_collab demo_module demo_store' demo_args =
               (tr, Inr (PyTensor r)) \<and> shape r = [2, 5, 4]"
    using forward_logits_and_loss [OF demo_init f(1-4) c0 same_shapes_refl a(1) s r(1) a(2) s
        r(1) p(1) a(7,3,4,5), unfolded v] a(6)
    by blast
  then have 1: "result_shape (forward demo_collab demo_module demo_store' demo_args) =
                  Some [2, 5, 4]"
    by (auto simp: result_shape_def)
  have "\<exists>tr r. forward demo_collab demo_module demo_store' demo_label_args =
               (tr, Inr (PyTensor r)) \<and> shape r = [2, 5]"
    using forward_logits_and_loss [OF demo_init f(1-4) c0 same_shapes_refl b(3) s r(1) b(4) s
        r(1) p(1) b(7,2,5,1), unfolded v] b(6) s demo_ids_in_range n(2)
    by blast
  then have 2: "result_shape (forward demo_collab demo_module demo_store' demo_label_args) =
                  Some [2, 5]"
    by (auto simp: result_shape_def)
  note s2 = demo_forward_steps [where f = True and dt = Half, OF b(2,3,4,5),
      folded demo_module_fp16(2) demo_half_collab_def]
  note t3 = pick_logits [OF forward_logits_and_loss
      [OF demo_fp16_init_of [of Half, folded demo_half_collab_def]
        f(5-8) c1 same_shapes_refl b(3) s r(2) b(4) s r(2) p(2) b(7,2,5,1), unfolded v] s2]
  have "\<exists>tr r. forward demo_half_collab demo_fp16_module demo_store' demo_label_args =
               (tr, Inr (PyTensor r)) \<and> shape r = [2, 5]"
    using t3 b(6) s demo_ids_in_range n(1)
    by (auto simp: demo_logit_tensor_simps)
  then have 3: "result_shape (forward demo_half_collab demo_fp16_module demo_store'
                  demo_label_args) = Some [2, 5]"
    by (auto simp: result_shape_def)
  note s1 = demo_forward_steps [where f = True and dt = Float32, OF b(2,3,4,5),
      folded demo_module_fp16(2) demo_collab_def]
  note t4 = pick_logits [OF forward_logits_and_loss
      [OF demo_fp16_init f(5-8) c0 same_shapes_refl b(3) s r(2) b(4) s r(2) p(2) b(7,2,5,1),
        unfolded v] s1]
  have 4: "snd (forward demo_collab demo_fp16_module demo_store' demo_label_args) =
             Inl AssertionError"
    using t4 b(6) s demo_ids_in_range n(1)
    by (simp add: demo_logit_tensor_simps)
  show ?thesis using 1 2 3 4 by simp
qed

text \<open>
  Claim C1 as stated fails for the loss: a module built as the claim says, with
  \<^verbatim>\<open>fp16_cross_entropy\<close> set and a head whose logits are float32, returns no loss from
  the call with labels. The call fails with \<^verbatim>\<open>AssertionError\<close> after the head.
\<close>

theorem forward_loss_fp16_counterexample:
  "init demo_collab demo_fp16_config demo_store = Inr (demo_fp16_module, demo_store') \<and>
   cfg_add_encoder demo_fp16_config \<and> cfg_add_decoder demo_fp16_config \<and>
   cfg_pre_process demo_fp16_config \<and> cfg_post_process demo_fp16_config \<and>
   enc_input_ids demo_label_args = Some demo_ids \<and>
   dec_input_ids demo_label_args = Some demo_ids \<and>
   labels demo_label_args = Some demo_ids \<and>
   shape demo_ids = [2, 5] \<and>
   forward demo_collab demo_fp16_module demo_store' demo_label_args =
     ([Call_build_position_ids_enc, Call_encoder_embedding 0, Call_build_position_ids_dec,
       Call_decoder_embedding 0, Call_enc_dec_model, Call_word_embeddings_weight,
       Call_tokens_head],
      Inl AssertionError)"
proof -
  note a = demo_label_args_simps
  note s = demo_forward_steps [where f = True and dt = Float32, OF a(2,3,4,5),
      folded demo_module_fp16(2) demo_collab_def]
  have i: "shape demo_ids = [2, 5]" by (simp add: demo_ids_def)
  have "forward demo_collab demo_fp16_module demo_store' demo_label_args =
     ([Call_build_position_ids_enc, Call_encoder_embedding 0, Call_build_position_ids_dec,
       Call_decoder_embedding 0, Call_enc_dec_model, Call_word_embeddings_weight,
       Call_tokens_head],
      Inl AssertionError)"
    by (simp add: forward_labels [OF a(1) demo_flags(1,2) a(6) s]
        tokens_loss_eq [OF demo_transpose_ids] demo_flags(3) demo_logit_tensor_simps)
  then show ?thesis
    using demo_fp16_init demo_config_flags(5-8) a(3,4,6) i by simp
qed

end
